theory Spec2Isabelle
  imports Main "HOL-Library.Log_Nat"
begin

section \<open>The balance server \<open>eth_balance_server.py\<close>\<close>

text \<open>
  The server offers two tools, \<open>get_wallet_balance\<close> and \<open>analyze_wallet_risk\<close>,
  over a registry of chain clients that a startup routine builds. Every function of the
  source is a function here. What the source obtains from its libraries and from the
  network (the probe of a node, a balance query, the parse of a key, the classification
  request) is a field of the record \<open>upstream\<close>: a function that gives the outcome of the
  call, an exception or a value. Exceptions are values of type \<open>exc\<close>, a raising
  computation returns \<open>Inl\<close>, and the tools return the network calls they made beside
  their result.
\<close>

subsection \<open>Exceptions\<close>

text \<open>
  The classes the source tells apart: \<open>except ValueError\<close>, \<open>except Exception\<close> and
  \<open>except KeyboardInterrupt\<close>. \<open>ValueError\<close> stands for the class and its subclasses,
  \<open>OtherException\<close> for every other subclass of \<open>Exception\<close>, \<open>OtherBaseException\<close>
  for what derives from \<open>BaseException\<close> only. \<open>InvalidAddress\<close> is the class with which
  \<open>web3\<close> rejects an address: it derives from the library's \<open>Web3Exception\<close>, a
  subclass of \<open>Exception\<close>, and not from \<open>ValueError\<close>. \<open>exc_str\<close> is \<open>str(e)\<close>.
\<close>

datatype exc_class =
  ValueError | KeyError | AttributeError | OverflowError | InvalidAddress | OtherException
  | KeyboardInterrupt | OtherBaseException

datatype exc = Exc (exc_class: exc_class) (exc_str: string)

definition is_ValueError :: "exc \<Rightarrow> bool" where
  "is_ValueError e = (exc_class e = ValueError)"

definition is_KeyboardInterrupt :: "exc \<Rightarrow> bool" where
  "is_KeyboardInterrupt e = (exc_class e = KeyboardInterrupt)"

definition is_Exception :: "exc \<Rightarrow> bool" where
  "is_Exception e = (exc_class e \<noteq> KeyboardInterrupt \<and> exc_class e \<noteq> OtherBaseException)"

text \<open>\<open>str(KeyError(k))\<close> is the key in quotes.\<close>

definition repr_key :: "string \<Rightarrow> string" where
  "repr_key k = CHR 0x27 # k @ [CHR 0x27]"

subsection \<open>Strings\<close>

text \<open>
  \<open>str.lower\<close> and \<open>str.upper\<close> on the ASCII letters. The source compares the lowered
  chain with ASCII names only, and a string with a character outside ASCII does not
  lower to one of them, so the other characters are left as they are.
\<close>

definition lower_char :: "char \<Rightarrow> char" where
  "lower_char c =
     (let n = (of_char c :: nat) in if 65 \<le> n \<and> n \<le> 90 then char_of (n + 32) else c)"

definition upper_char :: "char \<Rightarrow> char" where
  "upper_char c =
     (let n = (of_char c :: nat) in if 97 \<le> n \<and> n \<le> 122 then char_of (n - 32) else c)"

definition lower :: "string \<Rightarrow> string" where
  "lower s = map lower_char s"

definition upper :: "string \<Rightarrow> string" where
  "upper s = map upper_char s"

subsection \<open>Floating point\<close>

text \<open>
  A Python \<open>float\<close> is a binary64 number; a finite one is a rational, and the model
  keeps that rational. \<open>float_round x\<close> is the binary64 number nearest to \<open>x\<close>, ties to
  the even significand: the unit in the last place is \<open>2 ^ (\<lfloor>log\<^sub>2 \<bar>x\<bar>\<rfloor> - 52)\<close>, and
  \<open>2 ^ -1074\<close> below the normal range. \<open>ilog2 x\<close> is \<open>\<lfloor>log\<^sub>2 x\<rfloor>\<close> for a positive
  \<open>x\<close>, found from the bit lengths of its numerator and denominator. No infinity
  arises: \<open>float_of_int\<close> raises beyond the finite range, and the other values that
  the source rounds are smaller.
\<close>

definition pow2 :: "int \<Rightarrow> rat" where
  "pow2 k = (if 0 \<le> k then 2 ^ nat k else 1 / 2 ^ nat (- k))"

definition ilog2 :: "rat \<Rightarrow> int" where
  "ilog2 x =
     (let (p, q) = quotient_of x;
          k = int (floorlog 2 (nat p)) - int (floorlog 2 (nat q))
      in if pow2 k \<le> x then k else k - 1)"

definition round_half_even :: "rat \<Rightarrow> int" where
  "round_half_even x =
     (let f = \<lfloor>x\<rfloor>; d = x - of_int f
      in if d < 1 / 2 then f else if 1 / 2 < d then f + 1 else if even f then f else f + 1)"

definition float_round :: "rat \<Rightarrow> rat" where
  "float_round x =
     (if x = 0 then 0
      else let u = pow2 (max (ilog2 \<bar>x\<bar> - 52) (- 1074))
           in of_int (round_half_even (x / u)) * u)"

text \<open>
  \<open>float(i)\<close> for an \<open>int\<close>, as the division \<open>i / 1e9\<close> converts its left operand:
  the nearest binary64 number, \<open>OverflowError\<close> beyond the largest one.
\<close>

definition float_of_int :: "int \<Rightarrow> exc + rat" where
  "float_of_int i =
     (let r = float_round (of_int i)
      in if 2 ^ 1024 \<le> \<bar>r\<bar> then Inl (Exc OverflowError ''int too large to convert to float'')
         else Inr r)"

text \<open>\<open>a / b\<close> on two floats with \<open>b\<close> not zero, in the finite range.\<close>

definition float_div :: "rat \<Rightarrow> rat \<Rightarrow> rat" where
  "float_div a b = float_round (a / b)"

text \<open>
  \<open>AsyncWeb3.from_wei(number, "ether")\<close> is the library's conversion: the integer \<open>0\<close>
  for \<open>0\<close>, \<open>ValueError\<close> outside \<open>0 .. 2 ^ 256 - 1\<close>, and otherwise the decimal
  \<open>number / 10 ^ 18\<close>, exact at the library's precision of 999 digits.
\<close>

definition from_wei_ether :: "int \<Rightarrow> exc + rat" where
  "from_wei_ether number =
     (if number = 0 then Inr 0
      else if number < 0 \<or> 2 ^ 256 - 1 < number
        then Inl (Exc ValueError ''value must be between 1 and 2**256 - 1'')
      else Inr (of_int number / 10 ^ 18))"

subsection \<open>Clients, registry and upstream outcomes\<close>

datatype client = AsyncWeb3 string | SolClient string nat

datatype pubkey = Pubkey string

type_synonym registry = "string \<rightharpoonup> client"

text \<open>
  A candidate of the classification response, its score being the rational that the
  parsed float denotes.
\<close>

record candidate =
  label :: string
  score :: rat

text \<open>
  The HTTP response of the classification service: what \<open>raise_for_status()\<close> raises,
  if anything, and what \<open>json()\<close> gives, an exception or the list of candidates (the
  body is typed as the list the service documents).
\<close>

record http_response =
  raise_for_status :: "exc option"
  json :: "exc + candidate list"

text \<open>
  The request of \<open>analyze_wallet_risk\<close>: the token read from \<open>HF_TOKEN\<close> and the three
  values its prompt is formatted from.
\<close>

record classify_request =
  req_token :: "string option"
  req_address :: string
  req_balance :: rat
  req_chain :: string

record upstream =
  make_request :: "client \<Rightarrow> string \<Rightarrow> exc + string option"
  eth_get_balance :: "client \<Rightarrow> string \<Rightarrow> exc + int"
  pubkey_from_string :: "string \<Rightarrow> exc + pubkey"
  sol_get_balance :: "client \<Rightarrow> pubkey \<Rightarrow> exc + int"
  http_post :: "classify_request \<Rightarrow> exc + http_response"

text \<open>
  \<open>make_request w3 method\<close> is the response of the node to the probe, with its
  \<open>'result'\<close> entry if it has one. The network calls a tool makes, in order:
\<close>

datatype call =
  EthGetBalance client string
  | SolGetBalance client pubkey
  | HttpPost classify_request

subsection \<open>Startup\<close>

datatype level = INFO | ERROR | CRITICAL

text \<open>A log entry is its level and its message, without the pictograph that starts it.\<close>

type_synonym log = "(level \<times> string) list"

text \<open>
  What \<open>mcp.state.clients\<close> reads. The module creates the \<open>FastMCP\<close> object and never
  gives it a \<open>state\<close>: with \<open>None\<close> there is no \<open>mcp.state\<close>, and reading or assigning
  \<open>mcp.state.clients\<close> raises \<open>AttributeError\<close>; \<open>Some r\<close> stands for a state object that
  holds the registry \<open>r\<close>.
\<close>

record server_state =
  state_clients :: "registry option"

definition initial_state :: server_state where
  "initial_state = \<lparr>state_clients = None\<rparr>"

definition no_state_msg :: string where
  "no_state_msg = repr_key ''FastMCP'' @ '' object has no attribute '' @ repr_key ''state''"

definition chains :: "(string \<Rightarrow> string option) \<Rightarrow> (string \<times> string option) list" where
  "chains getenv =
     [(''ethereum'', getenv ''ETH_RPC''),
      (''polygon'', getenv ''POL_RPC''),
      (''arbitrum'', getenv ''ARB_RPC'')]"

text \<open>
  The loop over \<open>chains.items()\<close>. \<open>not rpc_url\<close> holds for \<open>None\<close> and for the empty
  string. \<open>version['result']\<close> raises \<open>KeyError\<close> on a response without that entry.
\<close>

fun connect_chains ::
  "upstream \<Rightarrow> (string \<times> string option) list \<Rightarrow> registry \<Rightarrow> log \<Rightarrow> (exc + registry) \<times> log"
where
  "connect_chains u [] clients lg = (Inr clients, lg)"
| "connect_chains u ((chain_name, rpc_url) # rest) clients lg =
     (case rpc_url of
        None \<Rightarrow> (Inl (Exc ValueError (''Missing RPC URL for '' @ chain_name)), lg)
      | Some url \<Rightarrow>
          if url = [] then (Inl (Exc ValueError (''Missing RPC URL for '' @ chain_name)), lg)
          else
            let w3 = AsyncWeb3 url in
            (case make_request u w3 ''web3_clientVersion'' of
               Inl e \<Rightarrow> (Inl e, lg)
             | Inr version \<Rightarrow>
                 (case version of
                    None \<Rightarrow> (Inl (Exc KeyError (repr_key ''result'')), lg)
                  | Some result \<Rightarrow>
                      connect_chains u rest (clients(chain_name \<mapsto> w3))
                        (lg @ [(INFO, ''Connected to '' @ upper chain_name
                                 @ '' node (Client: '' @ result @ '')'')]))))"

text \<open>
  \<open>sol_client\<close> is created and logged, and is a local variable: the function returns
  \<open>clients\<close> as the loop left it.
\<close>

definition initialize_blockchain_clients ::
  "upstream \<Rightarrow> (string \<Rightarrow> string option) \<Rightarrow> log \<Rightarrow> (exc + registry) \<times> log"
where
  "initialize_blockchain_clients u getenv lg =
     (case connect_chains u (chains getenv) Map.empty lg of
        (Inr clients, lg') \<Rightarrow>
          (let sol_client = SolClient ''https://api.mainnet-beta.solana.com'' 30
           in (Inr clients, lg' @ [(INFO, ''Connected to SOLANA node'')]))
      | (Inl e, lg') \<Rightarrow>
          if is_Exception e
          then (Inl e, lg' @ [(CRITICAL, ''Blockchain connection failed: '' @ exc_str e)])
          else (Inl e, lg'))"

text \<open>
  How the process stands after the \<open>__main__\<close> block's startup: it has exited with
  a status, it serves tool calls over a state, or an exception left the program
  uncaught.
\<close>

datatype outcome = Exited nat | Serving server_state | Uncaught exc

text \<open>
  \<open>initialize_server\<close> awaits the registry and assigns it to \<open>mcp.state.clients\<close>; the
  assignment is inside the \<open>try\<close>, so without an \<open>mcp.state\<close> its \<open>AttributeError\<close> is
  caught like a startup failure. On an exception the function calls \<open>os._exit(1)\<close>.
  Nothing in the source calls it.
\<close>

datatype init_result = Initialized server_state | OsExit nat | InitRaised exc

definition initialize_server ::
  "upstream \<Rightarrow> (string \<Rightarrow> string option) \<Rightarrow> server_state \<Rightarrow> log \<Rightarrow> init_result \<times> log"
where
  "initialize_server u getenv st lg =
     (case initialize_blockchain_clients u getenv lg of
        (Inr clients, lg') \<Rightarrow>
          (case state_clients st of
             None \<Rightarrow>
               (OsExit 1, lg' @ [(ERROR, ''Critical initialization failure: '' @ no_state_msg)])
           | Some previous \<Rightarrow>
               (Initialized (st\<lparr>state_clients := Some clients\<rparr>),
                lg' @ [(INFO, ''All blockchain connections verified'')]))
      | (Inl e, lg') \<Rightarrow>
          if is_Exception e
          then (OsExit 1, lg' @ [(ERROR, ''Critical initialization failure: '' @ exc_str e)])
          else (InitRaised e, lg'))"

text \<open>
  The \<open>__main__\<close> block. It awaits \<open>initialize_blockchain_clients\<close> and drops the
  registry it returns; \<open>mcp.run\<close> then serves over the state as the module created it.
  After \<open>except Exception\<close> or \<open>except KeyboardInterrupt\<close> the script has nothing left
  to run and the interpreter exits with status 0.
\<close>

definition main :: "upstream \<Rightarrow> (string \<Rightarrow> string option) \<Rightarrow> outcome \<times> log" where
  "main u getenv =
     (case initialize_blockchain_clients u getenv
             [(INFO, ''Starting MCP Server: Crypto Balance Analyzer'')] of
        (Inr clients, lg) \<Rightarrow> (Serving initial_state, lg)
      | (Inl e, lg) \<Rightarrow>
          if is_KeyboardInterrupt e then (Exited 0, lg @ [(INFO, ''Server stopped by user'')])
          else if is_Exception e
          then (Exited 0, lg @ [(CRITICAL, ''Fatal error: '' @ exc_str e)])
          else (Uncaught e, lg))"

subsection \<open>The balance tool\<close>

text \<open>
  A tool returns a dictionary: \<open>{chain, balance}\<close>, \<open>{address, chain, balance,
  risk_analysis}\<close> or \<open>{error}\<close>.
\<close>

datatype tool_result =
  BalanceResult string rat
  | RiskResult string string rat candidate
  | ErrorResult string

text \<open>\<open>"error" in d\<close> and \<open>d["balance"]\<close> on these dictionaries.\<close>

fun has_error :: "tool_result \<Rightarrow> bool" where
  "has_error (ErrorResult m) = True"
| "has_error r = False"

fun get_balance_key :: "tool_result \<Rightarrow> exc + rat" where
  "get_balance_key (BalanceResult c b) = Inr b"
| "get_balance_key (RiskResult a c b r) = Inr b"
| "get_balance_key (ErrorResult m) = Inl (Exc KeyError (repr_key ''balance''))"

text \<open>
  The two lines the three account-model branches share:
  \<open>balance_wei = await clients[key].eth.get_balance(address)\<close> and the return of
  \<open>float(AsyncWeb3.from_wei(balance_wei, "ether"))\<close> under the chain's name.
\<close>

definition evm_branch ::
  "upstream \<Rightarrow> registry \<Rightarrow> string \<Rightarrow> string \<Rightarrow> string \<Rightarrow> (exc + tool_result) \<times> call list"
where
  "evm_branch u clients key name address =
     (case clients key of
        None \<Rightarrow> (Inl (Exc KeyError (repr_key key)), [])
      | Some w3 \<Rightarrow>
          (case eth_get_balance u w3 address of
             Inl e \<Rightarrow> (Inl e, [EthGetBalance w3 address])
           | Inr balance_wei \<Rightarrow>
               (case from_wei_ether balance_wei of
                  Inl e \<Rightarrow> (Inl e, [EthGetBalance w3 address])
                | Inr d \<Rightarrow>
                    (Inr (BalanceResult name (float_round d)), [EthGetBalance w3 address]))))"

text \<open>
  The body of the \<open>try\<close>. Reading \<open>mcp.state.clients\<close> raises \<open>AttributeError\<close> where
  there is no \<open>mcp.state\<close>. In the last branch the address is parsed before the
  registry is looked up. The calls to \<open>logger\<close> in the tools are left out.
\<close>

definition get_wallet_balance_body ::
  "upstream \<Rightarrow> server_state \<Rightarrow> string \<Rightarrow> string \<Rightarrow> (exc + tool_result) \<times> call list"
where
  "get_wallet_balance_body u st address chain =
     (let chain = lower chain in
      case state_clients st of
        None \<Rightarrow> (Inl (Exc AttributeError no_state_msg), [])
      | Some clients \<Rightarrow>
          if chain \<in> set [''eth'', ''ethereum'']
            then evm_branch u clients ''ethereum'' ''Ethereum'' address
          else if chain \<in> set [''polygon'', ''matic'']
            then evm_branch u clients ''polygon'' ''Polygon'' address
          else if chain = ''arbitrum''
            then evm_branch u clients ''arbitrum'' ''Arbitrum'' address
          else if chain = ''solana'' then
            (case pubkey_from_string u address of
               Inl e \<Rightarrow> (Inl e, [])
             | Inr pubkey \<Rightarrow>
                 (case clients ''solana'' of
                    None \<Rightarrow> (Inl (Exc KeyError (repr_key ''solana'')), [])
                  | Some sol \<Rightarrow>
                      (case sol_get_balance u sol pubkey of
                         Inl e \<Rightarrow> (Inl e, [SolGetBalance sol pubkey])
                       | Inr resp_value \<Rightarrow>
                           (case float_of_int resp_value of
                              Inl e \<Rightarrow> (Inl e, [SolGetBalance sol pubkey])
                            | Inr v \<Rightarrow>
                                (Inr (BalanceResult ''Solana'' (float_div v (10 ^ 9))),
                                 [SolGetBalance sol pubkey])))))
          else (Inr (ErrorResult ''Unsupported chain''), []))"

text \<open>
  The two \<open>except\<close> clauses, in the source's order. What neither catches leaves the
  tool as an exception (\<open>Inl\<close>).
\<close>

definition get_wallet_balance ::
  "upstream \<Rightarrow> server_state \<Rightarrow> string \<Rightarrow> string \<Rightarrow> (exc + tool_result) \<times> call list"
where
  "get_wallet_balance u st address chain =
     (case get_wallet_balance_body u st address chain of
        (Inr r, tr) \<Rightarrow> (Inr r, tr)
      | (Inl e, tr) \<Rightarrow>
          if is_ValueError e then (Inr (ErrorResult ''Invalid wallet address''), tr)
          else if is_Exception e then (Inr (ErrorResult (exc_str e)), tr)
          else (Inl e, tr))"

subsection \<open>The risk tool\<close>

text \<open>
  \<open>max(results, key=lambda x: x["score"])\<close>: the scan keeps the item it holds unless
  the next one has a strictly greater key; \<open>ValueError\<close> on the empty list.
\<close>

fun max_scan :: "candidate \<Rightarrow> candidate list \<Rightarrow> candidate" where
  "max_scan m [] = m"
| "max_scan m (x # xs) = max_scan (if score m < score x then x else m) xs"

definition max_by_score :: "candidate list \<Rightarrow> exc + candidate" where
  "max_by_score results =
     (case results of
        [] \<Rightarrow> Inl (Exc ValueError ''max() arg is an empty sequence'')
      | x # xs \<Rightarrow> Inr (max_scan x xs))"

definition analyze_wallet_risk_body ::
  "upstream \<Rightarrow> (string \<Rightarrow> string option) \<Rightarrow> server_state \<Rightarrow> string \<Rightarrow> string
     \<Rightarrow> (exc + tool_result) \<times> call list"
where
  "analyze_wallet_risk_body u getenv st address chain =
     (case get_wallet_balance u st address chain of
        (Inl e, tr) \<Rightarrow> (Inl e, tr)
      | (Inr balance_data, tr) \<Rightarrow>
          if has_error balance_data then (Inr balance_data, tr)
          else
            (case get_balance_key balance_data of
               Inl e \<Rightarrow> (Inl e, tr)
             | Inr balance \<Rightarrow>
                 let request = \<lparr>req_token = getenv ''HF_TOKEN'', req_address = address,
                                 req_balance = balance, req_chain = chain\<rparr>;
                     tr' = tr @ [HttpPost request]
                 in
                 (case http_post u request of
                    Inl e \<Rightarrow> (Inl e, tr')
                  | Inr response \<Rightarrow>
                      (case raise_for_status response of
                         Some e \<Rightarrow> (Inl e, tr')
                       | None \<Rightarrow>
                           (case json response of
                              Inl e \<Rightarrow> (Inl e, tr')
                            | Inr results \<Rightarrow>
                                (case max_by_score results of
                                   Inl e \<Rightarrow> (Inl e, tr')
                                 | Inr best \<Rightarrow>
                                     (Inr (RiskResult address chain balance best), tr')))))))"

definition analyze_wallet_risk ::
  "upstream \<Rightarrow> (string \<Rightarrow> string option) \<Rightarrow> server_state \<Rightarrow> string \<Rightarrow> string
     \<Rightarrow> (exc + tool_result) \<times> call list"
where
  "analyze_wallet_risk u getenv st address chain =
     (case analyze_wallet_risk_body u getenv st address chain of
        (Inr r, tr) \<Rightarrow> (Inr r, tr)
      | (Inl e, tr) \<Rightarrow>
          if is_Exception e then (Inr (ErrorResult (exc_str e)), tr) else (Inl e, tr))"

subsection \<open>Notions used in the statements\<close>

text \<open>
  \<open>missing\<close> is Python's \<open>not rpc_url\<close>. \<open>probe_ok\<close> says that the loop of
  \<open>initialize_blockchain_clients\<close> gets past a chain: its URL is set and the node answers
  the probe with a \<open>'result'\<close>. \<open>account_chain chain key name\<close> lists the three
  account-model branches of \<open>get_wallet_balance\<close>: the lowered chain strings that select
  the branch, the registry key it reads and the chain name it reports. The
  \<open>example_\<close> constants are concrete environments, upstream behaviours and states on
  which the results below are evaluated.
\<close>

definition missing :: "string option \<Rightarrow> bool" where
  "missing rpc_url = (case rpc_url of None \<Rightarrow> True | Some url \<Rightarrow> url = [])"

definition probe_ok :: "upstream \<Rightarrow> string option \<Rightarrow> bool" where
  "probe_ok u rpc_url =
     (case rpc_url of
        None \<Rightarrow> False
      | Some url \<Rightarrow>
          url \<noteq> [] \<and>
          (case make_request u (AsyncWeb3 url) ''web3_clientVersion'' of
             Inl e \<Rightarrow> False
           | Inr version \<Rightarrow> version \<noteq> None))"

definition account_chain :: "string \<Rightarrow> string \<Rightarrow> string \<Rightarrow> bool" where
  "account_chain chain key name \<longleftrightarrow>
     (lower chain = ''eth'' \<or> lower chain = ''ethereum'')
       \<and> key = ''ethereum'' \<and> name = ''Ethereum''
     \<or> (lower chain = ''polygon'' \<or> lower chain = ''matic'')
       \<and> key = ''polygon'' \<and> name = ''Polygon''
     \<or> lower chain = ''arbitrum'' \<and> key = ''arbitrum'' \<and> name = ''Arbitrum''"

definition example_env :: "string \<Rightarrow> string option" where
  "example_env name =
     (if name = ''ETH_RPC'' then Some ''https://eth.example''
      else if name = ''POL_RPC'' then Some ''https://pol.example''
      else if name = ''ARB_RPC'' then Some ''https://arb.example''
      else None)"

definition example_env_no_pol :: "string \<Rightarrow> string option" where
  "example_env_no_pol name = (if name = ''POL_RPC'' then None else example_env name)"

definition example_candidates :: "candidate list" where
  "example_candidates =
     [\<lparr>label = ''positive'', score = float_round (2 / 10)\<rparr>,
      \<lparr>label = ''negative'', score = float_round (9 / 10)\<rparr>]"

definition example_upstream :: upstream where
  "example_upstream =
     \<lparr>make_request = (\<lambda>w3 method. Inr (Some ''Geth/v1.13'')),
      eth_get_balance = (\<lambda>w3 address. Inr (10 ^ 18)),
      pubkey_from_string = (\<lambda>address.
         if address = ''not-a-key'' then Inl (Exc ValueError ''Invalid Base58 string'')
         else Inr (Pubkey address)),
      sol_get_balance = (\<lambda>sol pubkey. Inr 500000000),
      http_post = (\<lambda>request. Inr \<lparr>raise_for_status = None, json = Inr example_candidates\<rparr>)\<rparr>"

definition example_upstream_down :: upstream where
  "example_upstream_down =
     \<lparr>make_request = (\<lambda>w3 method. Inl (Exc OtherException ''All connection attempts failed'')),
      eth_get_balance = (\<lambda>w3 address. Inl (Exc OtherException ''All connection attempts failed'')),
      pubkey_from_string = (\<lambda>address. Inr (Pubkey address)),
      sol_get_balance = (\<lambda>sol pubkey. Inl (Exc OtherException ''All connection attempts failed'')),
      http_post = (\<lambda>request. Inl (Exc OtherException ''All connection attempts failed''))\<rparr>"

definition example_registry :: registry where
  "example_registry =
     [''ethereum'' \<mapsto> AsyncWeb3 ''https://eth.example'',
      ''polygon'' \<mapsto> AsyncWeb3 ''https://pol.example'',
      ''arbitrum'' \<mapsto> AsyncWeb3 ''https://arb.example'',
      ''solana'' \<mapsto> SolClient ''https://api.mainnet-beta.solana.com'' 30]"

definition example_state :: server_state where
  "example_state = \<lparr>state_clients = Some example_registry\<rparr>"


definition example_upstream_overflow :: upstream where
  "example_upstream_overflow =
     example_upstream\<lparr>eth_get_balance := (\<lambda>w3 address. Inr (2 ^ 256))\<rparr>"

definition example_upstream_rejects :: upstream where
  "example_upstream_rejects =
     example_upstream\<lparr>eth_get_balance :=
       (\<lambda>w3 address. Inl (Exc InvalidAddress ''web3.py only accepts checksum addresses''))\<rparr>"

section \<open>Properties\<close>

subsection \<open>Rounding to binary64\<close>

lemma pow2_powi: "pow2 k = 2 powi k"
  by (simp add: pow2_def power_int_def inverse_eq_divide power_one_over)

lemma pow2_pos: "0 < pow2 k"
  by (simp add: pow2_powi)

lemma pow2_add: "pow2 (a + b) = pow2 a * pow2 b"
  by (simp add: pow2_powi power_int_add)

lemma pow2_diff: "pow2 (a - b) = pow2 a / pow2 b"
  by (simp add: pow2_powi power_int_diff)

lemma pow2_nat: "pow2 (int n) = 2 ^ n"
  by (simp add: pow2_def)

lemma pow2_less_iff: "pow2 a < pow2 b \<longleftrightarrow> a < b"
proof
  assume "pow2 a < pow2 b"
  show "a < b"
  proof (rule ccontr)
    assume "\<not> a < b"
    then have "b \<le> a" by simp
    then have "pow2 b \<le> pow2 a"
      unfolding pow2_powi by (intro power_int_increasing) simp_all
    with \<open>pow2 a < pow2 b\<close> show False by simp
  qed
next
  assume "a < b"
  then show "pow2 a < pow2 b"
    unfolding pow2_powi by (intro power_int_strict_increasing) simp_all
qed

lemma pow2_le_iff: "pow2 a \<le> pow2 b \<longleftrightarrow> a \<le> b"
  using pow2_less_iff [of b a] by (simp add: not_less [symmetric])

lemma pow2_of_int: "0 \<le> k \<Longrightarrow> pow2 k = of_int (2 ^ nat k)"
  by (simp add: pow2_def)

text \<open>The exponent found by \<open>ilog2\<close> brackets its argument.\<close>

lemma ilog2_bounds:
  assumes "0 < x"
  shows "pow2 (ilog2 x) \<le> x \<and> x < pow2 (ilog2 x + 1)"
proof -
  obtain p q where pq: "quotient_of x = (p, q)" by (cases "quotient_of x")
  have q: "0 < q" using pq by (rule quotient_of_denom_pos)
  have x: "x = of_int p / of_int q" using pq by (rule quotient_of_div)
  have p: "0 < p"
    using assms q unfolding x by (simp add: zero_less_divide_iff)
  define a where "a = floorlog 2 (nat p)"
  define b where "b = floorlog 2 (nat q)"
  have pa: "2 ^ (a - 1) \<le> nat p \<and> nat p < 2 ^ a"
    unfolding a_def using p by (intro floorlog_bounds) simp_all
  have qb: "2 ^ (b - 1) \<le> nat q \<and> nat q < 2 ^ b"
    unfolding b_def using q by (intro floorlog_bounds) simp_all
  have a0: "0 < a" using pa p by (cases a) simp_all
  have b0: "0 < b" using qb q by (cases b) simp_all
  have ofp: "(of_int p :: rat) = of_nat (nat p)" using p by simp
  have ofq: "(of_int q :: rat) = of_nat (nat q)" using q by simp
  have ea: "pow2 (int a - 1) = of_nat (2 ^ (a - 1))"
  proof -
    have "int a - 1 = int (a - 1)" using a0 by simp
    then have "pow2 (int a - 1) = 2 ^ (a - 1)" by (simp only: pow2_nat)
    then show ?thesis by simp
  qed
  have eb: "pow2 (int b - 1) = of_nat (2 ^ (b - 1))"
  proof -
    have "int b - 1 = int (b - 1)" using b0 by simp
    then have "pow2 (int b - 1) = 2 ^ (b - 1)" by (simp only: pow2_nat)
    then show ?thesis by simp
  qed
  have ea': "pow2 (int a) = of_nat (2 ^ a)" by (simp add: pow2_nat)
  have eb': "pow2 (int b) = of_nat (2 ^ b)" by (simp add: pow2_nat)
  have p_lo: "pow2 (int a - 1) \<le> of_int p"
    unfolding ea ofp using pa by (simp only: of_nat_le_iff)
  have p_hi: "of_int p < pow2 (int a)"
    unfolding ea' ofp using pa by (simp only: of_nat_less_iff)
  have q_lo: "pow2 (int b - 1) \<le> of_int q"
    unfolding eb ofq using qb by (simp only: of_nat_le_iff)
  have q_hi: "of_int q < pow2 (int b)"
    unfolding eb' ofq using qb by (simp only: of_nat_less_iff)
  define k where "k = int a - int b"
  have qpos: "(0::rat) < of_int q" using q by simp
  have lo: "pow2 (k - 1) < x"
  proof -
    have "pow2 (k - 1) * of_int q < pow2 (k - 1) * pow2 (int b)"
      using q_hi pow2_pos [of "k - 1"] by simp
    also have "\<dots> = pow2 (int a - 1)"
      unfolding k_def pow2_add [symmetric] by simp
    also have "\<dots> \<le> of_int p" by (rule p_lo)
    finally show ?thesis unfolding x using qpos by (simp add: pos_less_divide_eq)
  qed
  have hi: "x < pow2 (k + 1)"
  proof -
    have "of_int p < pow2 (int a)" by (rule p_hi)
    also have "\<dots> = pow2 (k + 1) * pow2 (int b - 1)"
      unfolding k_def pow2_add [symmetric] by simp
    also have "\<dots> \<le> pow2 (k + 1) * of_int q"
      using q_lo pow2_pos [of "k + 1"] by simp
    finally show ?thesis unfolding x using qpos by (simp add: pos_divide_less_eq)
  qed
  have il: "ilog2 x = (if pow2 k \<le> x then k else k - 1)"
    unfolding ilog2_def pq k_def a_def b_def by simp
  show ?thesis
  proof (cases "pow2 k \<le> x")
    case True
    then show ?thesis using hi il by simp
  next
    case False
    then show ?thesis using lo il by simp
  qed
qed

lemma ilog2_unique:
  assumes "0 < x" "pow2 k \<le> x" "x < pow2 (k + 1)"
  shows "ilog2 x = k"
proof -
  have b: "pow2 (ilog2 x) \<le> x" "x < pow2 (ilog2 x + 1)"
    using ilog2_bounds [OF assms(1)] by simp_all
  have "pow2 k < pow2 (ilog2 x + 1)" using assms(2) b(2) by (rule le_less_trans)
  then have "k < ilog2 x + 1" by (simp only: pow2_less_iff)
  moreover have "pow2 (ilog2 x) < pow2 (k + 1)" using b(1) assms(3) by (rule le_less_trans)
  then have "ilog2 x < k + 1" by (simp only: pow2_less_iff)
  ultimately show ?thesis by simp
qed

lemma round_half_even_of_int: "round_half_even (of_int n) = n"
  by (simp add: round_half_even_def)

lemma round_half_even_error: "\<bar>of_int (round_half_even y) - y\<bar> \<le> 1 / 2"
proof -
  have "of_int \<lfloor>y\<rfloor> \<le> y" "y < of_int \<lfloor>y\<rfloor> + 1" by linarith+
  then show ?thesis
    unfolding round_half_even_def Let_def by (simp add: abs_le_iff)
qed

lemma float_round_exact:
  assumes m: "\<bar>m\<bar> < 2 ^ 53" and e: "- 1074 \<le> e"
  shows "float_round (of_int m * pow2 e) = of_int m * pow2 e"
proof (cases "m = 0")
  case True
  then show ?thesis by (simp add: float_round_def)
next
  case False
  define x where "x = of_int m * pow2 e"
  have xabs: "\<bar>x\<bar> = of_int \<bar>m\<bar> * pow2 e"
    unfolding x_def using pow2_pos [of e] by (simp add: abs_mult)
  have xpos: "0 < \<bar>x\<bar>"
    unfolding xabs using False pow2_pos [of e] by simp
  have xne: "x \<noteq> 0" using xpos by simp
  define ue where "ue = max (ilog2 \<bar>x\<bar> - 52) (- 1074)"
  have "pow2 (ilog2 \<bar>x\<bar>) \<le> \<bar>x\<bar>" using ilog2_bounds [OF xpos] by simp
  also have "\<bar>x\<bar> < of_int (2 ^ 53) * pow2 e"
    unfolding xabs using m pow2_pos [of e] by (simp only: mult_less_cancel_right_pos of_int_less_iff)
  also have "of_int (2 ^ 53) * pow2 e = pow2 (53 + e)"
    unfolding pow2_add by (simp add: pow2_def)
  finally have "ilog2 \<bar>x\<bar> < 53 + e" by (simp only: pow2_less_iff)
  then have ue: "ue \<le> e" unfolding ue_def using e by simp
  have "x / pow2 ue = of_int m * pow2 (e - ue)"
    unfolding x_def pow2_diff by simp
  also have "pow2 (e - ue) = of_int (2 ^ nat (e - ue))"
    using ue by (intro pow2_of_int) simp
  finally have q: "x / pow2 ue = of_int (m * 2 ^ nat (e - ue))" by simp
  have "float_round x = of_int (round_half_even (x / pow2 ue)) * pow2 ue"
    unfolding float_round_def ue_def using xne by (simp add: Let_def)
  also have "\<dots> = x / pow2 ue * pow2 ue"
    unfolding q round_half_even_of_int ..
  also have "\<dots> = x" using pow2_pos [of ue] by simp
  finally show ?thesis unfolding x_def .
qed

lemma float_round_of_int:
  assumes "\<bar>m\<bar> < 2 ^ 53"
  shows "float_round (of_int m) = of_int m"
  using float_round_exact [OF assms, of 0] by (simp add: pow2_def)

lemma float_of_int_exact:
  assumes "\<bar>i\<bar> < 2 ^ 53"
  shows "float_of_int i = Inr (of_int i)"
proof -
  have "\<bar>i\<bar> < 2 ^ 1024"
    using assms by (rule less_trans) simp
  then have "\<bar>of_int i :: rat\<bar> < of_int (2 ^ 1024)"
    by (simp only: of_int_abs [symmetric] of_int_less_iff)
  then have "\<not> (2 ^ 1024 \<le> \<bar>of_int i :: rat\<bar>)" by simp
  then show ?thesis
    unfolding float_of_int_def float_round_of_int [OF assms] Let_def by simp
qed

text \<open>In the normal range the rounding error is at most half a unit in the last place.\<close>

lemma float_round_error:
  assumes "pow2 (- 1022) \<le> \<bar>x\<bar>"
  shows "\<bar>float_round x - x\<bar> \<le> \<bar>x\<bar> * pow2 (- 53)"
proof -
  have xpos: "0 < \<bar>x\<bar>" using assms pow2_pos [of "- 1022"] by (rule less_le_trans [rotated])
  have xne: "x \<noteq> 0" using xpos by simp
  define l where "l = ilog2 \<bar>x\<bar>"
  have lb: "pow2 l \<le> \<bar>x\<bar>" "\<bar>x\<bar> < pow2 (l + 1)"
    unfolding l_def using ilog2_bounds [OF xpos] by simp_all
  have "pow2 (- 1022) < pow2 (l + 1)" using assms lb(2) by (rule le_less_trans)
  then have "- 1022 < l + 1" by (simp only: pow2_less_iff)
  then have ue: "max (l - 52) (- 1074) = l - 52" by simp
  define u where "u = pow2 (l - 52)"
  have upos: "0 < u" unfolding u_def by (rule pow2_pos)
  have fr: "float_round x = of_int (round_half_even (x / u)) * u"
    unfolding float_round_def u_def using xne ue by (simp add: Let_def l_def)
  have "float_round x - x = (of_int (round_half_even (x / u)) - x / u) * u"
    unfolding fr using upos by (simp add: algebra_simps)
  then have "\<bar>float_round x - x\<bar> = \<bar>of_int (round_half_even (x / u)) - x / u\<bar> * u"
    using upos by (simp add: abs_mult)
  also have "\<dots> \<le> 1 / 2 * u"
    using round_half_even_error [of "x / u"] upos by (simp only: mult_le_cancel_right_pos)
  also have "1 / 2 * u = pow2 l * pow2 (- 53)"
  proof -
    have "u = pow2 (l + - 53 + 1)" unfolding u_def by simp
    also have "\<dots> = pow2 l * pow2 (- 53) * pow2 1" by (simp only: pow2_add)
    also have "pow2 1 = 2" by (simp add: pow2_def)
    finally show ?thesis by simp
  qed
  also have "\<dots> \<le> \<bar>x\<bar> * pow2 (- 53)"
    using lb(1) pow2_pos [of "- 53"] by (simp only: mult_le_cancel_right_pos)
  finally show ?thesis .
qed

subsection \<open>The branches of the balance tool\<close>

lemma body_solana:
  assumes "state_clients st = Some clients" "lower chain = ''solana''"
  shows "get_wallet_balance_body u st address chain =
     (case pubkey_from_string u address of
        Inl e \<Rightarrow> (Inl e, [])
      | Inr pubkey \<Rightarrow>
          (case clients ''solana'' of
             None \<Rightarrow> (Inl (Exc KeyError (repr_key ''solana'')), [])
           | Some sol \<Rightarrow>
               (case sol_get_balance u sol pubkey of
                  Inl e \<Rightarrow> (Inl e, [SolGetBalance sol pubkey])
                | Inr resp_value \<Rightarrow>
                    (case float_of_int resp_value of
                       Inl e \<Rightarrow> (Inl e, [SolGetBalance sol pubkey])
                     | Inr v \<Rightarrow>
                         (Inr (BalanceResult ''Solana'' (float_div v (10 ^ 9))),
                          [SolGetBalance sol pubkey])))))"
  using assms unfolding get_wallet_balance_body_def Let_def by simp

lemma body_unsupported:
  assumes "state_clients st = Some clients"
    "lower chain \<notin> {''eth'', ''ethereum'', ''polygon'', ''matic'', ''arbitrum'', ''solana''}"
  shows "get_wallet_balance_body u st address chain = (Inr (ErrorResult ''Unsupported chain''), [])"
  using assms unfolding get_wallet_balance_body_def Let_def by simp

lemma body_unset:
  assumes "state_clients st = None"
  shows "get_wallet_balance_body u st address chain = (Inl (Exc AttributeError no_state_msg), [])"
  using assms unfolding get_wallet_balance_body_def Let_def by simp

lemma handler_trace: "snd (get_wallet_balance u st address chain) = snd (get_wallet_balance_body u st address chain)"
  unfolding get_wallet_balance_def by (auto split: prod.splits sum.splits)

lemma evm_branch_trace:
  "clients key = Some w3 \<Longrightarrow> snd (evm_branch u clients key name address) = [EthGetBalance w3 address]"
  unfolding evm_branch_def by (simp split: sum.splits)

lemma evm_branch_no_post: "HttpPost rq \<notin> set (snd (evm_branch u clients key name address))"
  unfolding evm_branch_def by (simp split: option.splits sum.splits)

lemma body_no_post: "HttpPost rq \<notin> set (snd (get_wallet_balance_body u st address chain))"
  unfolding get_wallet_balance_body_def Let_def
  by (simp add: evm_branch_no_post split: option.splits sum.splits)

subsection \<open>Startup\<close>

lemma upper_names:
  "upper ''ethereum'' = ''ETHEREUM''" "upper ''polygon'' = ''POLYGON''"
  "upper ''arbitrum'' = ''ARBITRUM''"
  by code_simp+

lemma connect_chains_dom:
  "connect_chains u xs clients lg = (Inr clients', lg') \<Longrightarrow> dom clients' = dom clients \<union> fst ` set xs"
proof (induction xs arbitrary: clients lg)
  case Nil
  then show ?case by simp
next
  case (Cons x xs)
  obtain name url where x: "x = (name, url)" by (cases x)
  from Cons.prems obtain w r where
    "url = Some w" and
    rest: "connect_chains u xs (clients(name \<mapsto> AsyncWeb3 w))
             (lg @ [(INFO, ''Connected to '' @ upper name @ '' node (Client: '' @ r @ '')'')])
           = (Inr clients', lg')"
    unfolding x by (auto simp: Let_def split: option.splits if_splits sum.splits)
  from Cons.IH [OF rest] show ?case unfolding x by auto
qed

lemma startup_registry_dom:
  assumes "initialize_blockchain_clients u getenv lg = (Inr clients, lg')"
  shows "dom clients = {''ethereum'', ''polygon'', ''arbitrum''}"
proof -
  obtain lg1 where "connect_chains u (chains getenv) Map.empty lg = (Inr clients, lg1)"
    using assms unfolding initialize_blockchain_clients_def
    by (auto simp: Let_def split: prod.splits sum.splits if_splits)
  from connect_chains_dom [OF this] show ?thesis
    unfolding chains_def by auto
qed

text \<open>
  Claim C1. After a successful startup the registry that the tools read should hold an
  entry for \<open>ethereum\<close>, \<open>polygon\<close>, \<open>arbitrum\<close> and \<open>solana\<close>, and the process should
  not serve with an entry missing. With the three URLs set and every node answering the
  probe, \<open>initialize_blockchain_clients\<close> returns a registry of three entries, without
  \<open>solana\<close>, and the main block goes on to serve over a state whose \<open>clients\<close> was
  never assigned.
\<close>

theorem startup_registry_has_no_solana:
  "initialize_blockchain_clients example_upstream example_env [] =
     (Inr [''ethereum'' \<mapsto> AsyncWeb3 ''https://eth.example'',
           ''polygon'' \<mapsto> AsyncWeb3 ''https://pol.example'',
           ''arbitrum'' \<mapsto> AsyncWeb3 ''https://arb.example''],
      [(INFO, ''Connected to ETHEREUM node (Client: Geth/v1.13)''),
       (INFO, ''Connected to POLYGON node (Client: Geth/v1.13)''),
       (INFO, ''Connected to ARBITRUM node (Client: Geth/v1.13)''),
       (INFO, ''Connected to SOLANA node'')])
   \<and> [''ethereum'' \<mapsto> AsyncWeb3 ''https://eth.example'',
      ''polygon'' \<mapsto> AsyncWeb3 ''https://pol.example'',
      ''arbitrum'' \<mapsto> AsyncWeb3 ''https://arb.example''] ''solana'' = None
   \<and> fst (main example_upstream example_env) = Serving \<lparr>state_clients = None\<rparr>"
  by (simp add: initialize_blockchain_clients_def main_def chains_def example_env_def
      example_upstream_def upper_names initial_state_def Let_def)

text \<open>
  The function that nothing calls ends the process with status 1 where \<open>__main__\<close>
  is: without an \<open>mcp.state\<close> it never returns, since a startup failure and the failed
  assignment of the registry both reach its \<open>os._exit(1)\<close>.
\<close>

lemma initialize_server_without_state:
  assumes "state_clients st = None"
  shows "fst (initialize_server u getenv st lg) = OsExit 1
         \<or> (\<exists>e. fst (initialize_server u getenv st lg) = InitRaised e \<and> \<not> is_Exception e)"
proof -
  obtain res lg1 where i: "initialize_blockchain_clients u getenv lg = (res, lg1)"
    by (cases "initialize_blockchain_clients u getenv lg")
  show ?thesis
  proof (cases res)
    case (Inl e)
    then show ?thesis using i unfolding initialize_server_def by simp
  next
    case (Inr clients)
    then show ?thesis using i assms unfolding initialize_server_def by simp
  qed
qed

text \<open>
  The URL of a chain is checked inside the loop, after the chains before it were
  connected and probed: with \<open>POL_RPC\<close> absent and the Ethereum node unreachable,
  startup stops on the failed probe and the log names no missing chain.
\<close>

lemma failed_probe_masks_missing_url:
  "example_env_no_pol ''POL_RPC'' = None
   \<and> main example_upstream_down example_env_no_pol =
       (Exited 0,
        [(INFO, ''Starting MCP Server: Crypto Balance Analyzer''),
         (CRITICAL, ''Blockchain connection failed: All connection attempts failed''),
         (CRITICAL, ''Fatal error: All connection attempts failed'')])"
  by (simp add: initialize_blockchain_clients_def main_def chains_def example_env_def
      example_env_no_pol_def example_upstream_down_def Let_def is_Exception_def
      is_KeyboardInterrupt_def)

lemma connect_chains_missing:
  "missing url \<Longrightarrow>
   connect_chains u ((name, url) # rest) clients lg
     = (Inl (Exc ValueError (''Missing RPC URL for '' @ name)), lg)"
  by (auto simp: missing_def split: option.splits)

lemma connect_chains_probe_ok:
  "probe_ok u url \<Longrightarrow>
   \<exists>clients' lg'. connect_chains u ((name, url) # rest) clients lg
     = connect_chains u rest clients' lg'"
  by (auto simp: probe_ok_def Let_def split: option.splits sum.splits)

lemma connect_chains_raises:
  "(\<exists>x \<in> set xs. missing (snd x)) \<Longrightarrow> \<exists>e lg'. connect_chains u xs clients lg = (Inl e, lg')"
proof (induction xs arbitrary: clients lg)
  case Nil
  then show ?case by simp
next
  case (Cons x xs)
  obtain name url where x: "x = (name, url)" by (cases x)
  show ?case
  proof (cases "missing url")
    case True
    from connect_chains_missing [OF True, of u name xs clients lg]
    show ?thesis unfolding x by blast
  next
    case False
    with Cons.prems have later: "\<exists>y \<in> set xs. missing (snd y)" unfolding x by simp
    from False obtain w where w: "url = Some w" "w \<noteq> []"
      by (auto simp: missing_def split: option.splits)
    show ?thesis
    proof (cases "make_request u (AsyncWeb3 w) ''web3_clientVersion''")
      case (Inl e)
      then show ?thesis unfolding x using w by (simp add: Let_def)
    next
      case (Inr version)
      show ?thesis
      proof (cases version)
        case None
        then show ?thesis unfolding x using w Inr by (simp add: Let_def)
      next
        case (Some r)
        then show ?thesis unfolding x using w Inr Cons.IH [OF later] by (simp add: Let_def)
      qed
    qed
  qed
qed

lemma main_not_serving:
  assumes "fst (initialize_blockchain_clients u getenv lg0) = Inl e"
    and "lg0 = [(INFO, ''Starting MCP Server: Crypto Balance Analyzer'')]"
  shows "fst (main u getenv) \<noteq> Serving st"
  using assms unfolding main_def by (auto split: prod.splits sum.splits)

lemma init_raises:
  assumes "connect_chains u (chains getenv) Map.empty lg = (Inl e, lg')"
  shows "fst (initialize_blockchain_clients u getenv lg) = Inl e"
  using assms unfolding initialize_blockchain_clients_def by simp

lemma main_fatal_log:
  assumes "connect_chains u (chains getenv) Map.empty
             [(INFO, ''Starting MCP Server: Crypto Balance Analyzer'')] = (Inl (Exc ValueError m), lg')"
  shows "last (snd (main u getenv)) = (CRITICAL, ''Fatal error: '' @ m)"
  using assms unfolding main_def initialize_blockchain_clients_def
  by (simp add: is_Exception_def is_KeyboardInterrupt_def)

lemma chains_first:
  assumes "missing (getenv ''ETH_RPC'')"
  shows "connect_chains u (chains getenv) clients lg
           = (Inl (Exc ValueError ''Missing RPC URL for ethereum''), lg)"
  unfolding chains_def using connect_chains_missing [OF assms, of u "''ethereum''"] by simp

lemma chains_second:
  assumes "probe_ok u (getenv ''ETH_RPC'')" "missing (getenv ''POL_RPC'')"
  shows "\<exists>lg'. connect_chains u (chains getenv) clients lg
           = (Inl (Exc ValueError ''Missing RPC URL for polygon''), lg')"
proof -
  obtain c1 l1 where
    "connect_chains u (chains getenv) clients lg
       = connect_chains u [(''polygon'', getenv ''POL_RPC''), (''arbitrum'', getenv ''ARB_RPC'')] c1 l1"
    unfolding chains_def using connect_chains_probe_ok [OF assms(1)] by blast
  then show ?thesis
    using connect_chains_missing [OF assms(2), of u "''polygon''"] by simp
qed

lemma chains_third:
  assumes "probe_ok u (getenv ''ETH_RPC'')" "probe_ok u (getenv ''POL_RPC'')"
    "missing (getenv ''ARB_RPC'')"
  shows "\<exists>lg'. connect_chains u (chains getenv) clients lg
           = (Inl (Exc ValueError ''Missing RPC URL for arbitrum''), lg')"
proof -
  obtain c1 l1 where a:
    "connect_chains u (chains getenv) clients lg
       = connect_chains u [(''polygon'', getenv ''POL_RPC''), (''arbitrum'', getenv ''ARB_RPC'')] c1 l1"
    unfolding chains_def using connect_chains_probe_ok [OF assms(1)] by blast
  obtain c2 l2 where b:
    "connect_chains u [(''polygon'', getenv ''POL_RPC''), (''arbitrum'', getenv ''ARB_RPC'')] c1 l1
       = connect_chains u [(''arbitrum'', getenv ''ARB_RPC'')] c2 l2"
    using connect_chains_probe_ok [OF assms(2)] by blast
  show ?thesis
    unfolding a b using connect_chains_missing [OF assms(3), of u "''arbitrum''"] by simp
qed

text \<open>
  With a required URL absent or empty the main block never reaches \<open>mcp.run\<close>, whatever
  the nodes answer; when the chains before the first one without a URL pass their
  probe, the \<open>ValueError\<close> and the last log entry name that chain.
\<close>

lemma missing_endpoint_stops_startup:
  assumes "missing (getenv ''ETH_RPC'') \<or> missing (getenv ''POL_RPC'')
             \<or> missing (getenv ''ARB_RPC'')"
  shows "(\<forall>st. fst (main u getenv) \<noteq> Serving st)
    \<and> (missing (getenv ''ETH_RPC'') \<longrightarrow>
         fst (initialize_blockchain_clients u getenv lg)
           = Inl (Exc ValueError ''Missing RPC URL for ethereum'')
         \<and> last (snd (main u getenv)) = (CRITICAL, ''Fatal error: Missing RPC URL for ethereum''))
    \<and> (probe_ok u (getenv ''ETH_RPC'') \<and> missing (getenv ''POL_RPC'') \<longrightarrow>
         fst (initialize_blockchain_clients u getenv lg)
           = Inl (Exc ValueError ''Missing RPC URL for polygon'')
         \<and> last (snd (main u getenv)) = (CRITICAL, ''Fatal error: Missing RPC URL for polygon''))
    \<and> (probe_ok u (getenv ''ETH_RPC'') \<and> probe_ok u (getenv ''POL_RPC'')
          \<and> missing (getenv ''ARB_RPC'') \<longrightarrow>
         fst (initialize_blockchain_clients u getenv lg)
           = Inl (Exc ValueError ''Missing RPC URL for arbitrum'')
         \<and> last (snd (main u getenv)) = (CRITICAL, ''Fatal error: Missing RPC URL for arbitrum''))"
proof (intro conjI allI impI)
  fix st
  have "\<exists>x \<in> set (chains getenv). missing (snd x)"
    using assms unfolding chains_def by auto
  from connect_chains_raises [OF this] obtain e lg' where
    "connect_chains u (chains getenv) Map.empty
       [(INFO, ''Starting MCP Server: Crypto Balance Analyzer'')] = (Inl e, lg')"
    by blast
  from init_raises [OF this] show "fst (main u getenv) \<noteq> Serving st"
    by (rule main_not_serving) simp
next
  assume m: "missing (getenv ''ETH_RPC'')"
  show "fst (initialize_blockchain_clients u getenv lg)
          = Inl (Exc ValueError ''Missing RPC URL for ethereum'')"
    using chains_first [where getenv = getenv and u = u and clients = Map.empty and lg = lg, OF m]
    by (rule init_raises)
  show "last (snd (main u getenv)) = (CRITICAL, ''Fatal error: Missing RPC URL for ethereum'')"
    using chains_first [where getenv = getenv and u = u and clients = Map.empty, OF m]
    by (simp add: main_fatal_log)
next
  assume m: "probe_ok u (getenv ''ETH_RPC'') \<and> missing (getenv ''POL_RPC'')"
  then have p: "probe_ok u (getenv ''ETH_RPC'')" and q: "missing (getenv ''POL_RPC'')" by simp_all
  show "fst (initialize_blockchain_clients u getenv lg)
          = Inl (Exc ValueError ''Missing RPC URL for polygon'')"
    using chains_second [OF p q] init_raises by blast
  show "last (snd (main u getenv)) = (CRITICAL, ''Fatal error: Missing RPC URL for polygon'')"
    using chains_second [OF p q] main_fatal_log by fastforce
next
  assume m: "probe_ok u (getenv ''ETH_RPC'') \<and> probe_ok u (getenv ''POL_RPC'')
          \<and> missing (getenv ''ARB_RPC'')"
  then have p: "probe_ok u (getenv ''ETH_RPC'')" and p': "probe_ok u (getenv ''POL_RPC'')"
    and q: "missing (getenv ''ARB_RPC'')" by simp_all
  show "fst (initialize_blockchain_clients u getenv lg)
          = Inl (Exc ValueError ''Missing RPC URL for arbitrum'')"
    using chains_third [OF p p' q] init_raises by blast
  show "last (snd (main u getenv)) = (CRITICAL, ''Fatal error: Missing RPC URL for arbitrum'')"
    using chains_third [OF p p' q] main_fatal_log by fastforce
qed

lemma missing_endpoint_stops_startup_example:
  "missing (example_env_no_pol ''POL_RPC'')
   \<and> probe_ok example_upstream (example_env_no_pol ''ETH_RPC'')
   \<and> (\<forall>st. fst (main example_upstream example_env_no_pol) \<noteq> Serving st)
   \<and> fst (initialize_blockchain_clients example_upstream example_env_no_pol [])
       = Inl (Exc ValueError ''Missing RPC URL for polygon'')
   \<and> last (snd (main example_upstream example_env_no_pol))
       = (CRITICAL, ''Fatal error: Missing RPC URL for polygon'')"
proof -
  have m: "missing (example_env_no_pol ''POL_RPC'')"
    by (simp add: missing_def example_env_no_pol_def)
  have p: "probe_ok example_upstream (example_env_no_pol ''ETH_RPC'')"
    by (simp add: probe_ok_def example_env_no_pol_def example_env_def example_upstream_def)
  show ?thesis
    using m p missing_endpoint_stops_startup [of example_env_no_pol example_upstream "[]"]
    by simp
qed

text \<open>
  The main block has no exit but the end of the script: it serves, or ends with
  status 0, or lets through an exception that is no \<open>Exception\<close>.
\<close>

lemma main_outcome:
  "(\<exists>st. fst (main u getenv) = Serving st) \<or> fst (main u getenv) = Exited 0
   \<or> (\<exists>e. fst (main u getenv) = Uncaught e \<and> \<not> is_Exception e)"
proof -
  obtain res lg where i: "initialize_blockchain_clients u getenv
      [(INFO, ''Starting MCP Server: Crypto Balance Analyzer'')] = (res, lg)"
    by (cases "initialize_blockchain_clients u getenv
      [(INFO, ''Starting MCP Server: Crypto Balance Analyzer'')]")
  show ?thesis
  proof (cases res)
    case (Inl e)
    then show ?thesis using i unfolding main_def by simp
  next
    case (Inr clients)
    then show ?thesis using i unfolding main_def by simp
  qed
qed

lemma main_exit_status: "fst (main u getenv) = Exited n \<Longrightarrow> n = 0"
  using main_outcome [of u getenv] by auto

lemma missing_url_never_exits_nonzero:
  assumes "missing (getenv ''ETH_RPC'') \<or> missing (getenv ''POL_RPC'')
             \<or> missing (getenv ''ARB_RPC'')"
  shows "fst (main u getenv) = Exited 0
         \<or> (\<exists>e. fst (main u getenv) = Uncaught e \<and> \<not> is_Exception e)"
  using main_outcome [of u getenv] missing_endpoint_stops_startup [OF assms, of u] by blast

text \<open>
  Claim C2. With a required URL absent or empty, startup should abort the process with
  a non-zero exit status, naming the missing chain, and serve no tool call. With only
  \<open>POL_RPC\<close> absent and the nodes answering, the main block names polygon in its last
  log entry and serves no call, and ends with exit status 0: it catches the exception
  and runs off the end of the script. On the same input \<open>initialize_server\<close>, which the
  main block does not call, ends the process with status 1.
\<close>

theorem missing_url_exit_status:
  "example_env_no_pol ''POL_RPC'' = None
   \<and> main example_upstream example_env_no_pol =
       (Exited 0,
        [(INFO, ''Starting MCP Server: Crypto Balance Analyzer''),
         (INFO, ''Connected to ETHEREUM node (Client: Geth/v1.13)''),
         (CRITICAL, ''Blockchain connection failed: Missing RPC URL for polygon''),
         (CRITICAL, ''Fatal error: Missing RPC URL for polygon'')])
   \<and> initialize_server example_upstream example_env_no_pol initial_state [] =
       (OsExit 1,
        [(INFO, ''Connected to ETHEREUM node (Client: Geth/v1.13)''),
         (CRITICAL, ''Blockchain connection failed: Missing RPC URL for polygon''),
         (ERROR, ''Critical initialization failure: Missing RPC URL for polygon'')])"
  by (simp add: initialize_blockchain_clients_def main_def initialize_server_def chains_def
      example_env_def example_env_no_pol_def example_upstream_def upper_names Let_def
      is_Exception_def is_KeyboardInterrupt_def)

subsection \<open>The balance tool\<close>

lemma body_account_chain:
  assumes "state_clients st = Some clients" "account_chain chain key name"
  shows "get_wallet_balance_body u st address chain = evm_branch u clients key name address"
  using assms unfolding get_wallet_balance_body_def account_chain_def Let_def by auto

lemma handler_of_body_ok:
  "get_wallet_balance_body u st address chain = (Inr r, tr)
     \<Longrightarrow> get_wallet_balance u st address chain = (Inr r, tr)"
  by (simp add: get_wallet_balance_def)

lemma handler_of_body_value_error:
  "get_wallet_balance_body u st address chain = (Inl e, tr) \<Longrightarrow> is_ValueError e
     \<Longrightarrow> get_wallet_balance u st address chain = (Inr (ErrorResult ''Invalid wallet address''), tr)"
  by (simp add: get_wallet_balance_def)

lemma from_wei_in_range:
  "0 \<le> raw \<Longrightarrow> raw < 2 ^ 256 \<Longrightarrow> from_wei_ether raw = Inr (of_int raw / 10 ^ 18)"
  by (simp add: from_wei_ether_def)

lemma evm_branch_ok:
  assumes "clients key = Some w3" "eth_get_balance u w3 address = Inr raw" "0 \<le> raw" "raw < 2 ^ 256"
  shows "evm_branch u clients key name address
           = (Inr (BalanceResult name (float_round (of_int raw / 10 ^ 18))), [EthGetBalance w3 address])"
  using assms(1,2) from_wei_in_range [OF assms(3,4)] by (simp add: evm_branch_def)

lemma float_round_one: "float_round 1 = 1"
  using float_round_of_int [of 1] by simp

lemma float_round_half: "float_round (1 / 2) = 1 / 2"
  using float_round_exact [of 1 "- 1"] by (simp add: pow2_def)

lemma half_sol: "float_div 500000000 1000000000 = 1 / 2"
  by (simp add: float_div_def float_round_half)

lemma float_of_int_half_sol: "float_of_int 500000000 = Inr 500000000"
  using float_of_int_exact [of 500000000] by simp

lemma body_depends_on_lower:
  assumes "lower chain = lower chain'"
  shows "get_wallet_balance_body u st address chain = get_wallet_balance_body u st address chain'"
  unfolding get_wallet_balance_body_def assms by (rule refl)

lemma handler_depends_on_lower:
  assumes "lower chain = lower chain'"
  shows "get_wallet_balance u st address chain = get_wallet_balance u st address chain'"
  unfolding get_wallet_balance_def body_depends_on_lower [OF assms] by (rule refl)

lemma float_of_int_in_range:
  assumes "\<bar>i\<bar> < 2 ^ 1023"
  shows "float_of_int i = Inr (float_round (of_int i))"
proof (cases "i = 0")
  case True
  then show ?thesis by (simp add: float_of_int_def float_round_def)
next
  case False
  define x :: rat where "x = of_int i"
  from False have "1 \<le> \<bar>i\<bar>" by simp
  then have "(of_int 1 :: rat) \<le> of_int \<bar>i\<bar>" by (simp only: of_int_le_iff)
  then have x1: "1 \<le> \<bar>x\<bar>" unfolding x_def by simp
  have "(of_int \<bar>i\<bar> :: rat) < of_int (2 ^ 1023)" using assms by (simp only: of_int_less_iff)
  then have x2: "\<bar>x\<bar> < 2 ^ 1023" unfolding x_def by simp
  have "pow2 (- 1022) \<le> pow2 0" by (simp add: pow2_le_iff)
  also have "pow2 0 = 1" by (simp add: pow2_def)
  finally have "pow2 (- 1022) \<le> \<bar>x\<bar>" using x1 by simp
  then have "\<bar>float_round x - x\<bar> \<le> \<bar>x\<bar> * pow2 (- 53)" by (rule float_round_error)
  also have "\<dots> \<le> \<bar>x\<bar> * pow2 0"
    by (intro mult_left_mono) (simp_all add: pow2_le_iff)
  also have "\<dots> = \<bar>x\<bar>" by (simp add: pow2_def)
  finally have "\<bar>float_round x\<bar> \<le> 2 * \<bar>x\<bar>" by linarith
  also have "\<dots> < 2 * 2 ^ 1023" using x2 by simp
  also have "(2::rat) * 2 ^ 1023 = 2 ^ 1024" by simp
  finally have "\<not> 2 ^ 1024 \<le> \<bar>float_round x\<bar>" by simp
  then show ?thesis unfolding float_of_int_def x_def [symmetric] Let_def by simp
qed

lemma lower_examples:
  "lower ''ETH'' = ''eth''" "lower ''Matic'' = ''matic''" "lower ''ARBITRUM'' = ''arbitrum''"
  "lower ''SoLaNa'' = ''solana''" "lower ''bitcoin'' = ''bitcoin''" "lower ''eth'' = ''eth''"
  by code_simp+

text \<open>
  Over a state that holds a registry with the entry of the chain, the tool does what
  its branches say: \<open>eth\<close> and \<open>ethereum\<close> query the client under \<open>ethereum\<close>,
  \<open>polygon\<close> and \<open>matic\<close> the one under \<open>polygon\<close>, \<open>arbitrum\<close> the one under
  \<open>arbitrum\<close>, \<open>solana\<close> the one under \<open>solana\<close> with the parsed key, each with one
  call; every other chain string returns \<open>Unsupported chain\<close> with no network call; and
  two chain strings with the same lowered form give the same result.
\<close>

lemma chain_alias_routing:
  assumes "state_clients st = Some clients"
  shows "(account_chain chain key name \<and> clients key = Some w3 \<longrightarrow>
           snd (get_wallet_balance u st address chain) = [EthGetBalance w3 address])
    \<and> (lower chain = ''solana'' \<and> clients ''solana'' = Some sol
          \<and> pubkey_from_string u address = Inr pk \<longrightarrow>
           snd (get_wallet_balance u st address chain) = [SolGetBalance sol pk])
    \<and> (lower chain \<notin> {''eth'', ''ethereum'', ''polygon'', ''matic'', ''arbitrum'', ''solana''} \<longrightarrow>
           get_wallet_balance u st address chain = (Inr (ErrorResult ''Unsupported chain''), []))
    \<and> (lower chain = lower chain' \<longrightarrow>
           get_wallet_balance u st address chain = get_wallet_balance u st address chain')"
proof (intro conjI impI)
  assume a: "account_chain chain key name \<and> clients key = Some w3"
  then have "get_wallet_balance_body u st address chain = evm_branch u clients key name address"
    using assms by (simp add: body_account_chain)
  then show "snd (get_wallet_balance u st address chain) = [EthGetBalance w3 address]"
    using a by (simp add: handler_trace evm_branch_trace)
next
  assume a: "lower chain = ''solana'' \<and> clients ''solana'' = Some sol
          \<and> pubkey_from_string u address = Inr pk"
  then have "snd (get_wallet_balance_body u st address chain) = [SolGetBalance sol pk]"
    using assms by (simp add: body_solana split: sum.splits)
  then show "snd (get_wallet_balance u st address chain) = [SolGetBalance sol pk]"
    by (simp add: handler_trace)
next
  assume "lower chain \<notin> {''eth'', ''ethereum'', ''polygon'', ''matic'', ''arbitrum'', ''solana''}"
  then show "get_wallet_balance u st address chain = (Inr (ErrorResult ''Unsupported chain''), [])"
    using assms by (simp add: body_unsupported handler_of_body_ok)
next
  assume "lower chain = lower chain'"
  then show "get_wallet_balance u st address chain = get_wallet_balance u st address chain'"
    by (rule handler_depends_on_lower)
qed

lemma chain_alias_routing_example:
  "state_clients example_state = Some example_registry
   \<and> account_chain ''ETH'' ''ethereum'' ''Ethereum''
   \<and> snd (get_wallet_balance example_upstream example_state ''0xabc'' ''ETH'')
       = [EthGetBalance (AsyncWeb3 ''https://eth.example'') ''0xabc'']
   \<and> account_chain ''Matic'' ''polygon'' ''Polygon''
   \<and> snd (get_wallet_balance example_upstream example_state ''0xabc'' ''Matic'')
       = [EthGetBalance (AsyncWeb3 ''https://pol.example'') ''0xabc'']
   \<and> account_chain ''ARBITRUM'' ''arbitrum'' ''Arbitrum''
   \<and> snd (get_wallet_balance example_upstream example_state ''0xabc'' ''ARBITRUM'')
       = [EthGetBalance (AsyncWeb3 ''https://arb.example'') ''0xabc'']
   \<and> lower ''SoLaNa'' = ''solana''
   \<and> snd (get_wallet_balance example_upstream example_state ''So1'' ''SoLaNa'')
       = [SolGetBalance (SolClient ''https://api.mainnet-beta.solana.com'' 30) (Pubkey ''So1'')]
   \<and> lower ''bitcoin'' \<notin> {''eth'', ''ethereum'', ''polygon'', ''matic'', ''arbitrum'', ''solana''}
   \<and> get_wallet_balance example_upstream example_state ''0xabc'' ''bitcoin''
       = (Inr (ErrorResult ''Unsupported chain''), [])
   \<and> lower ''ETH'' = lower ''eth''
   \<and> get_wallet_balance example_upstream example_state ''0xabc'' ''ETH''
       = get_wallet_balance example_upstream example_state ''0xabc'' ''eth''"
proof -
  have st: "state_clients example_state = Some example_registry"
    by (simp add: example_state_def)
  have reg: "example_registry ''ethereum'' = Some (AsyncWeb3 ''https://eth.example'')"
    "example_registry ''polygon'' = Some (AsyncWeb3 ''https://pol.example'')"
    "example_registry ''arbitrum'' = Some (AsyncWeb3 ''https://arb.example'')"
    "example_registry ''solana'' = Some (SolClient ''https://api.mainnet-beta.solana.com'' 30)"
    by (simp_all add: example_registry_def)
  have pk: "pubkey_from_string example_upstream ''So1'' = Inr (Pubkey ''So1'')"
    by (simp add: example_upstream_def)
  have ac: "account_chain ''ETH'' ''ethereum'' ''Ethereum''"
    "account_chain ''Matic'' ''polygon'' ''Polygon''"
    "account_chain ''ARBITRUM'' ''arbitrum'' ''Arbitrum''"
    by (simp_all add: account_chain_def lower_examples)
  note r = chain_alias_routing [OF st, of _ _ _ _ example_upstream]
  show ?thesis
    using st reg pk ac
      r [of "''ETH''" "''ethereum''" "''Ethereum''" "AsyncWeb3 ''https://eth.example''" "''0xabc''"]
      r [of "''Matic''" "''polygon''" "''Polygon''" "AsyncWeb3 ''https://pol.example''" "''0xabc''"]
      r [of "''ARBITRUM''" "''arbitrum''" "''Arbitrum''" "AsyncWeb3 ''https://arb.example''" "''0xabc''"]
      r [of "''SoLaNa''" _ _ _ "''So1''" "SolClient ''https://api.mainnet-beta.solana.com'' 30"
            "Pubkey ''So1''"]
      r [of "''bitcoin''" _ _ _ "''0xabc''"]
      r [of "''ETH''" _ _ _ "''0xabc''" _ _ "''eth''"]
    by (simp add: lower_examples)
qed

text \<open>
  The state that the main block serves over has no registry, and there the tool
  answers every call with the text of the \<open>AttributeError\<close>.
\<close>

lemma main_serves_without_state:
  "fst (main u getenv) = Serving st \<Longrightarrow> state_clients st = None"
proof -
  assume a: "fst (main u getenv) = Serving st"
  obtain res lg where i: "initialize_blockchain_clients u getenv
      [(INFO, ''Starting MCP Server: Crypto Balance Analyzer'')] = (res, lg)"
    by (cases "initialize_blockchain_clients u getenv
      [(INFO, ''Starting MCP Server: Crypto Balance Analyzer'')]")
  show ?thesis
  proof (cases res)
    case (Inl e)
    then show ?thesis using a i unfolding main_def by (simp split: if_splits)
  next
    case (Inr clients)
    then have "st = initial_state" using a i unfolding main_def by simp
    then show ?thesis by (simp add: initial_state_def)
  qed
qed

lemma tool_without_state:
  assumes "state_clients st = None"
  shows "get_wallet_balance u st address chain = (Inr (ErrorResult no_state_msg), [])"
  unfolding get_wallet_balance_def body_unset [OF assms]
  by (simp add: is_ValueError_def is_Exception_def)

lemma served_tool_result:
  assumes "fst (main u getenv) = Serving st"
  shows "get_wallet_balance u' st address chain = (Inr (ErrorResult no_state_msg), [])"
  using main_serves_without_state [OF assms] by (rule tool_without_state)

text \<open>
  Claim C3. \<open>get_wallet_balance\<close> should route each alias to the client of its chain and
  return \<open>Unsupported chain\<close> for any other chain string. After a successful startup
  with the three URLs set, the tool is served over a state without registry: for
  \<open>bitcoin\<close>, \<open>eth\<close> and \<open>solana\<close> alike it returns the text of the \<open>AttributeError\<close>
  raised by \<open>mcp.state.clients\<close>, which is not \<open>Unsupported chain\<close>, and calls no
  client.
\<close>

theorem served_tool_ignores_chain:
  "fst (main example_upstream example_env) = Serving initial_state
   \<and> get_wallet_balance example_upstream initial_state ''0xabc'' ''bitcoin''
       = (Inr (ErrorResult no_state_msg), [])
   \<and> get_wallet_balance example_upstream initial_state ''0xabc'' ''eth''
       = (Inr (ErrorResult no_state_msg), [])
   \<and> get_wallet_balance example_upstream initial_state ''So1'' ''solana''
       = (Inr (ErrorResult no_state_msg), [])
   \<and> ErrorResult no_state_msg \<noteq> ErrorResult ''Unsupported chain''"
proof -
  have m: "fst (main example_upstream example_env) = Serving initial_state"
    by (simp add: initialize_blockchain_clients_def main_def chains_def example_env_def
        example_upstream_def Let_def)
  have n: "state_clients initial_state = None" by (simp add: initial_state_def)
  have d: "ErrorResult no_state_msg \<noteq> ErrorResult ''Unsupported chain''"
    by (simp add: no_state_msg_def repr_key_def)
  show ?thesis using m d by (simp add: tool_without_state [OF n])
qed

lemma float_round_scaled_error:
  assumes "(1::rat) \<le> d" "d \<le> 10 ^ 18"
  shows "\<bar>float_round (of_int raw / d) - of_int raw / d\<bar> \<le> \<bar>of_int raw / d\<bar> * pow2 (- 53)"
proof (cases "raw = 0")
  case True
  then show ?thesis by (simp add: float_round_def)
next
  case False
  then have "1 \<le> \<bar>raw\<bar>" by simp
  then have "(of_int 1 :: rat) \<le> of_int \<bar>raw\<bar>" by (simp only: of_int_le_iff)
  then have "(1::rat) \<le> \<bar>of_int raw\<bar>" by simp
  have dpos: "0 < d" using assms(1) by simp
  have "pow2 (- 1022) \<le> pow2 (- 60)" by (simp add: pow2_le_iff)
  also have "pow2 (- 60) \<le> 1 / 10 ^ 18" by (simp add: pow2_def)
  also have "1 / 10 ^ 18 \<le> 1 / d" using assms dpos by (simp add: frac_le)
  also have "1 / d \<le> \<bar>of_int raw\<bar> / d"
    using \<open>1 \<le> \<bar>of_int raw\<bar>\<close> dpos by (simp add: divide_right_mono)
  also have "\<bar>of_int raw\<bar> / d = \<bar>of_int raw / d\<bar>" using dpos by simp
  finally show ?thesis by (rule float_round_error)
qed

text \<open>
  Claim C4. On the account-model chains the reported balance is the float of
  \<open>raw / 10 ^ 18\<close> for a raw balance in \<open>0 .. 2 ^ 256 - 1\<close>, within relative error
  \<open>2 ^ -53\<close> of the quotient, and exactly 1 for the raw balance \<open>10 ^ 18\<close>. On Solana it
  is the float of \<open>raw / 10 ^ 9\<close> for a raw balance below \<open>2 ^ 53\<close>, with the same
  error bound, and exactly \<open>1 / 2\<close> for the raw balance 500000000; a larger raw
  balance is first rounded to a float itself, as Python's division converts it.
\<close>

theorem balance_unit_scale:
  assumes "state_clients st = Some clients"
  shows "(account_chain chain key name \<and> clients key = Some w3
          \<and> eth_get_balance u w3 address = Inr raw \<and> 0 \<le> raw \<and> raw < 2 ^ 256 \<longrightarrow>
           fst (get_wallet_balance u st address chain)
             = Inr (BalanceResult name (float_round (of_int raw / 10 ^ 18)))
           \<and> \<bar>float_round (of_int raw / 10 ^ 18) - of_int raw / 10 ^ 18\<bar>
               \<le> of_int raw / 10 ^ 18 * pow2 (- 53))
    \<and> (account_chain chain key name \<and> clients key = Some w3
          \<and> eth_get_balance u w3 address = Inr 1000000000000000000 \<longrightarrow>
           fst (get_wallet_balance u st address chain) = Inr (BalanceResult name 1))
    \<and> (lower chain = ''solana'' \<and> clients ''solana'' = Some sol
          \<and> pubkey_from_string u address = Inr pk
          \<and> sol_get_balance u sol pk = Inr raw \<and> 0 \<le> raw \<and> raw < 2 ^ 53 \<longrightarrow>
           fst (get_wallet_balance u st address chain)
             = Inr (BalanceResult ''Solana'' (float_round (of_int raw / 10 ^ 9)))
           \<and> \<bar>float_round (of_int raw / 10 ^ 9) - of_int raw / 10 ^ 9\<bar>
               \<le> of_int raw / 10 ^ 9 * pow2 (- 53))
    \<and> (lower chain = ''solana'' \<and> clients ''solana'' = Some sol
          \<and> pubkey_from_string u address = Inr pk
          \<and> sol_get_balance u sol pk = Inr 500000000 \<longrightarrow>
           fst (get_wallet_balance u st address chain) = Inr (BalanceResult ''Solana'' (1 / 2)))
    \<and> (lower chain = ''solana'' \<and> clients ''solana'' = Some sol
          \<and> pubkey_from_string u address = Inr pk
          \<and> sol_get_balance u sol pk = Inr raw \<and> \<bar>raw\<bar> < 2 ^ 1023 \<longrightarrow>
           fst (get_wallet_balance u st address chain)
             = Inr (BalanceResult ''Solana'' (float_round (float_round (of_int raw) / 10 ^ 9))))"
proof (intro conjI impI)
  assume a: "account_chain chain key name \<and> clients key = Some w3
          \<and> eth_get_balance u w3 address = Inr raw \<and> 0 \<le> raw \<and> raw < 2 ^ 256"
  then have k: "account_chain chain key name" and c: "clients key = Some w3"
    and g: "eth_get_balance u w3 address = Inr raw" and r: "0 \<le> raw" "raw < 2 ^ 256"
    by blast+
  have "get_wallet_balance_body u st address chain
      = (Inr (BalanceResult name (float_round (of_int raw / 10 ^ 18))), [EthGetBalance w3 address])"
    unfolding body_account_chain [OF assms k] using c g r by (rule evm_branch_ok)
  then show "fst (get_wallet_balance u st address chain)
             = Inr (BalanceResult name (float_round (of_int raw / 10 ^ 18)))"
    by (simp add: handler_of_body_ok)
  have "\<bar>float_round (of_int raw / 10 ^ 18) - of_int raw / 10 ^ 18\<bar>
          \<le> \<bar>of_int raw / 10 ^ 18\<bar> * pow2 (- 53)"
    by (rule float_round_scaled_error) simp_all
  moreover have "\<bar>of_int raw / 10 ^ 18 :: rat\<bar> = of_int raw / 10 ^ 18" using a by simp
  ultimately show "\<bar>float_round (of_int raw / 10 ^ 18) - of_int raw / 10 ^ 18\<bar>
               \<le> of_int raw / 10 ^ 18 * pow2 (- 53)" by simp
next
  assume a: "account_chain chain key name \<and> clients key = Some w3
          \<and> eth_get_balance u w3 address = Inr 1000000000000000000"
  then have k: "account_chain chain key name" and c: "clients key = Some w3"
    and g: "eth_get_balance u w3 address = Inr 1000000000000000000"
    by blast+
  have "evm_branch u clients key name address
      = (Inr (BalanceResult name (float_round (of_int 1000000000000000000 / 10 ^ 18))),
         [EthGetBalance w3 address])"
    using c g by (rule evm_branch_ok) simp_all
  then have "get_wallet_balance_body u st address chain
      = (Inr (BalanceResult name 1), [EthGetBalance w3 address])"
    unfolding body_account_chain [OF assms k] by (simp add: float_round_one)
  then show "fst (get_wallet_balance u st address chain) = Inr (BalanceResult name 1)"
    by (simp add: handler_of_body_ok)
next
  assume a: "lower chain = ''solana'' \<and> clients ''solana'' = Some sol
          \<and> pubkey_from_string u address = Inr pk
          \<and> sol_get_balance u sol pk = Inr raw \<and> 0 \<le> raw \<and> raw < 2 ^ 53"
  then have "float_of_int raw = Inr (of_int raw)"
    by (intro float_of_int_exact) simp
  then have "get_wallet_balance_body u st address chain
      = (Inr (BalanceResult ''Solana'' (float_round (of_int raw / 10 ^ 9))), [SolGetBalance sol pk])"
    using a assms by (simp add: body_solana float_div_def)
  then show "fst (get_wallet_balance u st address chain)
             = Inr (BalanceResult ''Solana'' (float_round (of_int raw / 10 ^ 9)))"
    by (simp add: handler_of_body_ok)
  have "\<bar>float_round (of_int raw / 10 ^ 9) - of_int raw / 10 ^ 9\<bar>
          \<le> \<bar>of_int raw / 10 ^ 9\<bar> * pow2 (- 53)"
    by (rule float_round_scaled_error) simp_all
  moreover have "\<bar>of_int raw / 10 ^ 9 :: rat\<bar> = of_int raw / 10 ^ 9" using a by simp
  ultimately show "\<bar>float_round (of_int raw / 10 ^ 9) - of_int raw / 10 ^ 9\<bar>
               \<le> of_int raw / 10 ^ 9 * pow2 (- 53)" by simp
next
  assume a: "lower chain = ''solana'' \<and> clients ''solana'' = Some sol
          \<and> pubkey_from_string u address = Inr pk
          \<and> sol_get_balance u sol pk = Inr 500000000"
  then have "get_wallet_balance_body u st address chain
      = (Inr (BalanceResult ''Solana'' (1 / 2)), [SolGetBalance sol pk])"
    using assms by (simp add: body_solana float_of_int_half_sol half_sol)
  then show "fst (get_wallet_balance u st address chain) = Inr (BalanceResult ''Solana'' (1 / 2))"
    by (simp add: handler_of_body_ok)
next
  assume a: "lower chain = ''solana'' \<and> clients ''solana'' = Some sol
          \<and> pubkey_from_string u address = Inr pk
          \<and> sol_get_balance u sol pk = Inr raw \<and> \<bar>raw\<bar> < 2 ^ 1023"
  then have l: "lower chain = ''solana''" and r: "\<bar>raw\<bar> < 2 ^ 1023" by blast+
  have "get_wallet_balance_body u st address chain
      = (Inr (BalanceResult ''Solana'' (float_round (float_round (of_int raw) / 10 ^ 9))),
         [SolGetBalance sol pk])"
    unfolding body_solana [OF assms l] using a float_of_int_in_range [OF r]
    by (simp add: float_div_def)
  then show "fst (get_wallet_balance u st address chain)
             = Inr (BalanceResult ''Solana'' (float_round (float_round (of_int raw) / 10 ^ 9)))"
    by (simp add: handler_of_body_ok)
qed

lemma example_facts:
  "state_clients example_state = Some example_registry"
  "example_registry ''ethereum'' = Some (AsyncWeb3 ''https://eth.example'')"
  "example_registry ''polygon'' = Some (AsyncWeb3 ''https://pol.example'')"
  "example_registry ''arbitrum'' = Some (AsyncWeb3 ''https://arb.example'')"
  "example_registry ''solana'' = Some (SolClient ''https://api.mainnet-beta.solana.com'' 30)"
  by (simp_all add: example_state_def example_registry_def)

lemma example_upstream_facts:
  "eth_get_balance example_upstream w3 address = Inr 1000000000000000000"
  "sol_get_balance example_upstream sol pk = Inr 500000000"
  "pubkey_from_string example_upstream ''So1'' = Inr (Pubkey ''So1'')"
  "pubkey_from_string example_upstream ''not-a-key'' = Inl (Exc ValueError ''Invalid Base58 string'')"
  "http_post example_upstream rq = Inr \<lparr>raise_for_status = None, json = Inr example_candidates\<rparr>"
  by (simp_all add: example_upstream_def)

lemma example_account_chains:
  "account_chain ''ETH'' ''ethereum'' ''Ethereum''"
  "account_chain ''Matic'' ''polygon'' ''Polygon''"
  "account_chain ''ARBITRUM'' ''arbitrum'' ''Arbitrum''"
  by (simp_all add: account_chain_def lower_examples)

theorem balance_unit_scale_witness:
  "state_clients example_state = Some example_registry
   \<and> account_chain ''ETH'' ''ethereum'' ''Ethereum''
   \<and> example_registry ''ethereum'' = Some (AsyncWeb3 ''https://eth.example'')
   \<and> eth_get_balance example_upstream (AsyncWeb3 ''https://eth.example'') ''0xabc''
       = Inr 1000000000000000000
   \<and> (0::int) \<le> 1000000000000000000 \<and> (1000000000000000000::int) < 2 ^ 256
   \<and> fst (get_wallet_balance example_upstream example_state ''0xabc'' ''ETH'')
       = Inr (BalanceResult ''Ethereum'' 1)
   \<and> lower ''SoLaNa'' = ''solana''
   \<and> example_registry ''solana'' = Some (SolClient ''https://api.mainnet-beta.solana.com'' 30)
   \<and> pubkey_from_string example_upstream ''So1'' = Inr (Pubkey ''So1'')
   \<and> sol_get_balance example_upstream (SolClient ''https://api.mainnet-beta.solana.com'' 30)
         (Pubkey ''So1'') = Inr 500000000
   \<and> (0::int) \<le> 500000000 \<and> (500000000::int) < 2 ^ 53
   \<and> fst (get_wallet_balance example_upstream example_state ''So1'' ''SoLaNa'')
       = Inr (BalanceResult ''Solana'' (1 / 2))
   \<and> float_round (of_int 500000000 / 10 ^ 9) = 1 / 2
   \<and> float_round (of_int 1000000000000000000 / 10 ^ 18) = 1"
proof -
  note r = balance_unit_scale [OF example_facts(1), of _ _ _ _ example_upstream]
  have a: "fst (get_wallet_balance example_upstream example_state ''0xabc'' ''ETH'')
       = Inr (BalanceResult ''Ethereum'' 1)"
    using r [of "''ETH''" "''ethereum''" "''Ethereum''" "AsyncWeb3 ''https://eth.example''" "''0xabc''"]
      example_facts example_upstream_facts example_account_chains by simp
  have b: "fst (get_wallet_balance example_upstream example_state ''So1'' ''SoLaNa'')
       = Inr (BalanceResult ''Solana'' (1 / 2))"
    using r [of "''SoLaNa''" _ _ _ "''So1''" _ "SolClient ''https://api.mainnet-beta.solana.com'' 30"
          "Pubkey ''So1''"]
      example_facts example_upstream_facts lower_examples by simp
  have c: "fst (get_wallet_balance example_upstream example_state ''So1'' ''SoLaNa'')
       = Inr (BalanceResult ''Solana'' (float_round (of_int 500000000 / 10 ^ 9)))"
    using r [of "''SoLaNa''" _ _ _ "''So1''" 500000000
          "SolClient ''https://api.mainnet-beta.solana.com'' 30" "Pubkey ''So1''"]
      example_facts example_upstream_facts lower_examples by simp
  have d: "fst (get_wallet_balance example_upstream example_state ''0xabc'' ''ETH'')
       = Inr (BalanceResult ''Ethereum'' (float_round (of_int 1000000000000000000 / 10 ^ 18)))"
    using r [of "''ETH''" "''ethereum''" "''Ethereum''" "AsyncWeb3 ''https://eth.example''" "''0xabc''"
          1000000000000000000]
      example_facts example_upstream_facts example_account_chains by simp
  have e: "float_round (of_int 500000000 / 10 ^ 9) = 1 / 2" using b c by simp
  have f: "float_round (of_int 1000000000000000000 / 10 ^ 18) = 1" using a d by simp
  show ?thesis
    using a b e f example_facts example_upstream_facts example_account_chains lower_examples
    by simp
qed

lemma handler_no_post: "HttpPost rq \<notin> set (snd (get_wallet_balance u st address chain))"
  unfolding handler_trace by (rule body_no_post)

text \<open>
  Claim C5. When \<open>get_wallet_balance\<close> returns an error value (with the network calls
  \<open>tr\<close>), \<open>analyze_wallet_risk\<close> on the same inputs returns the same error value after
  the same calls, none of which is the classification request.
\<close>

theorem risk_propagates_balance_error:
  assumes "get_wallet_balance u st address chain = (Inr (ErrorResult m), tr)"
  shows "analyze_wallet_risk u getenv st address chain = (Inr (ErrorResult m), tr)
         \<and> (\<forall>rq. HttpPost rq \<notin> set tr)"
proof
  have "analyze_wallet_risk_body u getenv st address chain = (Inr (ErrorResult m), tr)"
    unfolding analyze_wallet_risk_body_def assms by simp
  then show "analyze_wallet_risk u getenv st address chain = (Inr (ErrorResult m), tr)"
    unfolding analyze_wallet_risk_def by simp
  show "\<forall>rq. HttpPost rq \<notin> set tr"
    using handler_no_post [of _ u st address chain] unfolding assms by simp
qed

lemma handler_of_body_other_exception:
  "get_wallet_balance_body u st address chain = (Inl e, tr) \<Longrightarrow> is_Exception e
     \<Longrightarrow> \<not> is_ValueError e
     \<Longrightarrow> get_wallet_balance u st address chain = (Inr (ErrorResult (exc_str e)), tr)"
  by (simp add: get_wallet_balance_def)

lemma out_of_range_balance:
  assumes "state_clients st = Some clients" and "account_chain chain key name"
    and "clients key = Some w3" and "eth_get_balance u w3 address = Inr raw"
    and "raw < 0 \<or> 2 ^ 256 \<le> raw"
  shows "get_wallet_balance_body u st address chain
      = (Inl (Exc ValueError ''value must be between 1 and 2**256 - 1''),
         [EthGetBalance w3 address])"
proof -
  have "from_wei_ether raw = Inl (Exc ValueError ''value must be between 1 and 2**256 - 1'')"
    using assms(5) unfolding from_wei_ether_def by auto
  then show ?thesis
    unfolding body_account_chain [OF assms(1,2)] using assms(3,4) by (simp add: evm_branch_def)
qed





theorem risk_propagates_balance_error_witness:
  "get_wallet_balance example_upstream example_state ''not-a-key'' ''SoLaNa''
     = (Inr (ErrorResult ''Invalid wallet address''), [])
   \<and> analyze_wallet_risk example_upstream example_env example_state ''not-a-key'' ''SoLaNa''
     = (Inr (ErrorResult ''Invalid wallet address''), [])"
proof -
  have v: "is_ValueError (Exc ValueError ''Invalid Base58 string'')"
    by (simp add: is_ValueError_def)
  have "get_wallet_balance_body example_upstream example_state ''not-a-key'' ''SoLaNa''
          = (Inl (Exc ValueError ''Invalid Base58 string''), [])"
    by (simp add: body_solana [OF example_facts(1) lower_examples(4)] example_upstream_facts)
  then have g: "get_wallet_balance example_upstream example_state ''not-a-key'' ''SoLaNa''
     = (Inr (ErrorResult ''Invalid wallet address''), [])"
    using v by (rule handler_of_body_value_error)
  show ?thesis
    using g risk_propagates_balance_error [OF g, of example_env] by simp
qed

text \<open>
  Over a registry as startup builds it, a Solana query with a well-formed address ends
  in the \<open>KeyError\<close> of the registry lookup, reported as an error value, with no
  network call.
\<close>

lemma solana_lookup_fails_after_startup:
  assumes "state_clients st = Some clients"
    and "dom clients = {''ethereum'', ''polygon'', ''arbitrum''}"
    and "lower chain = ''solana''" and "pubkey_from_string u address = Inr pk"
  shows "get_wallet_balance u st address chain = (Inr (ErrorResult (repr_key ''solana'')), [])"
proof -
  have "''solana'' \<notin> dom clients" unfolding assms(2) by simp
  then have "clients ''solana'' = None" by (simp add: domIff)
  then have "get_wallet_balance_body u st address chain
               = (Inl (Exc KeyError (repr_key ''solana'')), [])"
    unfolding body_solana [OF assms(1,3)] using assms(4) by simp
  then show ?thesis
    unfolding get_wallet_balance_def by (simp add: is_ValueError_def is_Exception_def)
qed

subsection \<open>The risk tool\<close>

lemma max_scan_first_max:
  "\<exists>pre c post. max_scan m xs = c \<and> m # xs = pre @ c # post
      \<and> (\<forall>x \<in> set pre. score x < score c)
      \<and> (\<forall>x \<in> set post. score x \<le> score c)"
proof (induction xs arbitrary: m)
  case Nil
  have "[m] = [] @ m # []" by simp
  then show ?case by fastforce
next
  case (Cons x xs)
  show ?case
  proof (cases "score m < score x")
    case True
    from Cons.IH [of x] obtain pre c post where
      c: "max_scan x xs = c" and d: "x # xs = pre @ c # post"
      and lo: "\<forall>y \<in> set pre. score y < score c"
      and hi: "\<forall>y \<in> set post. score y \<le> score c"
      by blast
    have ms: "max_scan m (x # xs) = c" using True c by simp
    have "score x \<le> score c"
    proof (cases pre)
      case Nil
      then show ?thesis using d by simp
    next
      case (Cons p ps)
      then have "x \<in> set pre" using d by simp
      then show ?thesis using lo by fastforce
    qed
    then have "score m < score c" using True by simp
    then have "\<forall>y \<in> set (m # pre). score y < score c" using lo by simp
    moreover have "m # x # xs = (m # pre) @ c # post" using d by simp
    ultimately show ?thesis using ms hi by blast
  next
    case False
    from Cons.IH [of m] obtain pre c post where
      c: "max_scan m xs = c" and d: "m # xs = pre @ c # post"
      and lo: "\<forall>y \<in> set pre. score y < score c"
      and hi: "\<forall>y \<in> set post. score y \<le> score c"
      by blast
    have ms: "max_scan m (x # xs) = c" using False c by simp
    show ?thesis
    proof (cases pre)
      case Nil
      then have "c = m" and "post = xs" using d by simp_all
      then have "m # x # xs = [] @ c # (x # xs)"
        and "\<forall>y \<in> set (x # xs). score y \<le> score c"
        using hi False by simp_all
      then show ?thesis using ms by fastforce
    next
      case (Cons p ps)
      then have p: "p = m" and xs: "xs = ps @ c # post" using d by simp_all
      have "score m < score c" using lo Cons p by simp
      then have "\<forall>y \<in> set (m # x # ps). score y < score c"
        using lo Cons False by simp
      moreover have "m # x # xs = (m # x # ps) @ c # post" using xs by simp
      ultimately show ?thesis using ms hi by blast
    qed
  qed
qed

lemma example_scores: "float_round (2 / 10) < float_round (9 / 10)"
proof -
  have p: "pow2 (- 53) \<le> 1 / 100" by (simp add: pow2_def)
  have lo: "pow2 (- 1022) \<le> 1 / 10" 
  proof -
    have "pow2 (- 1022) \<le> pow2 (- 4)" by (simp add: pow2_le_iff)
    also have "\<dots> \<le> 1 / 10" by (simp add: pow2_def)
    finally show ?thesis .
  qed
  have a: "\<bar>float_round (2 / 10) - 2 / 10\<bar> \<le> \<bar>2 / 10\<bar> * pow2 (- 53)"
    using lo by (intro float_round_error) simp
  have b: "\<bar>float_round (9 / 10) - 9 / 10\<bar> \<le> \<bar>9 / 10\<bar> * pow2 (- 53)"
    using lo by (intro float_round_error) simp
  have "float_round (2 / 10) \<le> 2 / 10 + 2 / 10 * (1 / 100)"
    using a p by linarith
  moreover have "9 / 10 - 9 / 10 * (1 / 100) \<le> float_round (9 / 10)"
    using b p by linarith
  ultimately show ?thesis by linarith
qed

text \<open>
  Claim C7. On a non-empty list of candidates the selection returns an entry of the
  list such that every entry before it has a strictly smaller score and every entry
  after it a score that is not greater: the first entry of maximal score. On
  \<open>[{positive, 0.2}, {negative, 0.9}]\<close> it returns \<open>{negative, 0.9}\<close>. When the balance
  tool succeeds and the service answers with a list on which the selection returns
  \<open>best\<close>, the result holds the caller's address and chain, the balance and \<open>best\<close>.
\<close>

theorem risk_selects_first_maximum:
  "(results \<noteq> [] \<longrightarrow>
      (\<exists>pre best post. max_by_score results = Inr best \<and> results = pre @ best # post
          \<and> (\<forall>x \<in> set pre. score x < score best)
          \<and> (\<forall>x \<in> set post. score x \<le> score best)))
   \<and> max_by_score [\<lparr>label = ''positive'', score = float_round (2 / 10)\<rparr>,
                    \<lparr>label = ''negative'', score = float_round (9 / 10)\<rparr>]
       = Inr \<lparr>label = ''negative'', score = float_round (9 / 10)\<rparr>
   \<and> (get_wallet_balance u st address chain = (Inr (BalanceResult c b), tr)
        \<and> http_post u \<lparr>req_token = getenv ''HF_TOKEN'', req_address = address,
                         req_balance = b, req_chain = chain\<rparr> = Inr response
        \<and> raise_for_status response = None \<and> json response = Inr results
        \<and> max_by_score results = Inr best \<longrightarrow>
       fst (analyze_wallet_risk u getenv st address chain)
         = Inr (RiskResult address chain b best))"
proof (intro conjI impI)
  assume "results \<noteq> []"
  then obtain x xs where r: "results = x # xs" by (cases results) simp_all
  from max_scan_first_max [of x xs] show
    "\<exists>pre best post. max_by_score results = Inr best \<and> results = pre @ best # post
          \<and> (\<forall>x \<in> set pre. score x < score best)
          \<and> (\<forall>x \<in> set post. score x \<le> score best)"
    unfolding r max_by_score_def by auto
next
  show "max_by_score [\<lparr>label = ''positive'', score = float_round (2 / 10)\<rparr>,
                    \<lparr>label = ''negative'', score = float_round (9 / 10)\<rparr>]
       = Inr \<lparr>label = ''negative'', score = float_round (9 / 10)\<rparr>"
    using example_scores by (simp add: max_by_score_def)
next
  assume a: "get_wallet_balance u st address chain = (Inr (BalanceResult c b), tr)
        \<and> http_post u \<lparr>req_token = getenv ''HF_TOKEN'', req_address = address,
                         req_balance = b, req_chain = chain\<rparr> = Inr response
        \<and> raise_for_status response = None \<and> json response = Inr results
        \<and> max_by_score results = Inr best"
  then have "analyze_wallet_risk_body u getenv st address chain
               = (Inr (RiskResult address chain b best),
                  tr @ [HttpPost \<lparr>req_token = getenv ''HF_TOKEN'', req_address = address,
                         req_balance = b, req_chain = chain\<rparr>])"
    unfolding analyze_wallet_risk_body_def by (simp add: Let_def)
  then show "fst (analyze_wallet_risk u getenv st address chain)
         = Inr (RiskResult address chain b best)"
    unfolding analyze_wallet_risk_def by simp
qed

lemma example_eth_balance:
  "get_wallet_balance example_upstream example_state ''0xabc'' ''ETH''
     = (Inr (BalanceResult ''Ethereum'' 1),
        [EthGetBalance (AsyncWeb3 ''https://eth.example'') ''0xabc''])"
proof -
  have "evm_branch example_upstream example_registry ''ethereum'' ''Ethereum'' ''0xabc''
      = (Inr (BalanceResult ''Ethereum'' (float_round (of_int 1000000000000000000 / 10 ^ 18))),
         [EthGetBalance (AsyncWeb3 ''https://eth.example'') ''0xabc''])"
    using example_facts(2) example_upstream_facts(1) by (rule evm_branch_ok) simp_all
  then have "get_wallet_balance_body example_upstream example_state ''0xabc'' ''ETH''
      = (Inr (BalanceResult ''Ethereum'' 1),
         [EthGetBalance (AsyncWeb3 ''https://eth.example'') ''0xabc''])"
    unfolding body_account_chain [OF example_facts(1) example_account_chains(1)]
    by (simp add: float_round_one)
  then show ?thesis by (rule handler_of_body_ok)
qed

theorem risk_selects_first_maximum_witness:
  "example_candidates \<noteq> []
   \<and> max_by_score example_candidates = Inr \<lparr>label = ''negative'', score = float_round (9 / 10)\<rparr>
   \<and> get_wallet_balance example_upstream example_state ''0xabc'' ''ETH''
       = (Inr (BalanceResult ''Ethereum'' 1),
          [EthGetBalance (AsyncWeb3 ''https://eth.example'') ''0xabc''])
   \<and> http_post example_upstream
         \<lparr>req_token = example_env ''HF_TOKEN'', req_address = ''0xabc'', req_balance = 1,
          req_chain = ''ETH''\<rparr>
       = Inr \<lparr>raise_for_status = None, json = Inr example_candidates\<rparr>
   \<and> fst (analyze_wallet_risk example_upstream example_env example_state ''0xabc'' ''ETH'')
       = Inr (RiskResult ''0xabc'' ''ETH'' 1
                \<lparr>label = ''negative'', score = float_round (9 / 10)\<rparr>)"
proof -
  note t = risk_selects_first_maximum
    [of example_candidates example_upstream example_state "''0xabc''" "''ETH''" "''Ethereum''" 1
        "[EthGetBalance (AsyncWeb3 ''https://eth.example'') ''0xabc'']" example_env
        "\<lparr>raise_for_status = None, json = Inr example_candidates\<rparr>"
        "\<lparr>label = ''negative'', score = float_round (9 / 10)\<rparr>"]
  have ne: "example_candidates \<noteq> []" by (simp add: example_candidates_def)
  have m: "max_by_score example_candidates
             = Inr \<lparr>label = ''negative'', score = float_round (9 / 10)\<rparr>"
    using t unfolding example_candidates_def by blast
  show ?thesis
    using t ne m example_eth_balance example_upstream_facts(5) by simp
qed

subsection \<open>Failures of the balance tool\<close>

lemma evm_branch_raises:
  assumes "evm_branch u clients key name address = (Inl e, tr)"
  shows "(\<exists>w3. eth_get_balance u w3 address = Inl e) \<or> exc_class e = KeyError
           \<or> exc_class e = ValueError"
  using assms unfolding evm_branch_def from_wei_ether_def
  by (auto split: option.splits sum.splits if_splits)

lemma body_raises:
  assumes "get_wallet_balance_body u st address chain = (Inl e, tr)"
  shows "(\<exists>w3. eth_get_balance u w3 address = Inl e)
           \<or> pubkey_from_string u address = Inl e
           \<or> (\<exists>sol pk. sol_get_balance u sol pk = Inl e)
           \<or> exc_class e \<in> {KeyError, ValueError, AttributeError, OverflowError}"
proof (cases "state_clients st")
  case None
  then show ?thesis using assms by (simp add: body_unset) auto
next
  case (Some clients)
  show ?thesis
  proof (cases "lower chain = ''solana''")
    case True
    then show ?thesis
      using assms unfolding body_solana [OF Some True] float_of_int_def
      by (auto simp: Let_def split: sum.splits option.splits if_splits)
  next
    case False
    then have "\<exists>key name. get_wallet_balance_body u st address chain
                  = evm_branch u clients key name address
               \<or> get_wallet_balance_body u st address chain
                  = (Inr (ErrorResult ''Unsupported chain''), [])"
      using Some unfolding get_wallet_balance_body_def Let_def by auto
    then show ?thesis using assms evm_branch_raises by fastforce
  qed
qed

text \<open>
  Claim C8. When the upstream calls raise instances of \<open>Exception\<close> only (network
  errors, upstream errors, responses of an unexpected shape), \<open>get_wallet_balance\<close>
  returns a value on every input and in every state, and whenever the body of its
  \<open>try\<close> raised, that value is an error value: \<open>Invalid wallet address\<close> for a
  \<open>ValueError\<close>, the text of the exception otherwise.
\<close>

theorem balance_tool_returns_error_values:
  assumes "\<forall>w3 a e. eth_get_balance u w3 a = Inl e \<longrightarrow> is_Exception e"
    and "\<forall>a e. pubkey_from_string u a = Inl e \<longrightarrow> is_Exception e"
    and "\<forall>sol pk e. sol_get_balance u sol pk = Inl e \<longrightarrow> is_Exception e"
  shows "\<exists>r tr. get_wallet_balance u st address chain = (Inr r, tr)
           \<and> (\<forall>e. fst (get_wallet_balance_body u st address chain) = Inl e \<longrightarrow>
                 r = ErrorResult (if is_ValueError e then ''Invalid wallet address''
                                  else exc_str e))"
proof (cases "get_wallet_balance_body u st address chain")
  case (Pair res tr)
  show ?thesis
  proof (cases res)
    case (Inr r)
    then show ?thesis using Pair by (simp add: get_wallet_balance_def)
  next
    case (Inl e)
    with Pair have b: "get_wallet_balance_body u st address chain = (Inl e, tr)" by simp
    have "is_Exception e"
      using body_raises [OF b] assms by (auto simp: is_Exception_def)
    then have "get_wallet_balance u st address chain
                 = (Inr (ErrorResult (if is_ValueError e then ''Invalid wallet address''
                                      else exc_str e)), tr)"
      using b by (simp add: get_wallet_balance_def)
    then show ?thesis using b by simp
  qed
qed

lemma example_down_facts:
  "eth_get_balance example_upstream_down w3 a = Inl (Exc OtherException ''All connection attempts failed'')"
  "sol_get_balance example_upstream_down sol pk = Inl (Exc OtherException ''All connection attempts failed'')"
  "pubkey_from_string example_upstream_down a = Inr (Pubkey a)"
  by (simp_all add: example_upstream_down_def)

theorem balance_tool_returns_error_values_witness:
  "fst (get_wallet_balance example_upstream_down example_state ''0xabc'' ''ETH'')
     = Inr (ErrorResult ''All connection attempts failed'')"
proof -
  have ex: "is_Exception (Exc OtherException ''All connection attempts failed'')"
    by (simp add: is_Exception_def)
  have nv: "\<not> is_ValueError (Exc OtherException ''All connection attempts failed'')"
    by (simp add: is_ValueError_def)
  have b: "fst (get_wallet_balance_body example_upstream_down example_state ''0xabc'' ''ETH'')
             = Inl (Exc OtherException ''All connection attempts failed'')"
    unfolding body_account_chain [OF example_facts(1) example_account_chains(1)]
    by (simp add: evm_branch_def example_facts example_down_facts)
  have "\<exists>r tr. get_wallet_balance example_upstream_down example_state ''0xabc'' ''ETH'' = (Inr r, tr)
           \<and> (\<forall>e. fst (get_wallet_balance_body example_upstream_down example_state ''0xabc'' ''ETH'')
                      = Inl e \<longrightarrow>
                 r = ErrorResult (if is_ValueError e then ''Invalid wallet address''
                                  else exc_str e))"
    by (rule balance_tool_returns_error_values) (simp_all add: example_down_facts ex)
  then show ?thesis using b nv by auto
qed

text \<open>
  Claim C9, as stated: every \<open>ValueError\<close> raised in \<open>get_wallet_balance\<close>, address
  validation on the account-model chains included, is reported as
  \<open>Invalid wallet address\<close>. An address that \<open>web3\<close> rejects is rejected with
  \<open>InvalidAddress\<close>, which is no \<open>ValueError\<close>: the tool returns the text of the library.
\<close>

theorem evm_invalid_address_counterexample:
  "eth_get_balance example_upstream_rejects (AsyncWeb3 ''https://eth.example'')
       ''0xd8da6bf26964af9d7eed9e03e53415d37aa96045''
     = Inl (Exc InvalidAddress ''web3.py only accepts checksum addresses'')
   \<and> is_Exception (Exc InvalidAddress ''web3.py only accepts checksum addresses'')
   \<and> \<not> is_ValueError (Exc InvalidAddress ''web3.py only accepts checksum addresses'')
   \<and> get_wallet_balance example_upstream_rejects example_state
         ''0xd8da6bf26964af9d7eed9e03e53415d37aa96045'' ''ETH''
       = (Inr (ErrorResult ''web3.py only accepts checksum addresses''),
          [EthGetBalance (AsyncWeb3 ''https://eth.example'')
             ''0xd8da6bf26964af9d7eed9e03e53415d37aa96045''])
   \<and> ErrorResult ''web3.py only accepts checksum addresses''
       \<noteq> ErrorResult ''Invalid wallet address''"
proof -
  have g: "eth_get_balance example_upstream_rejects (AsyncWeb3 ''https://eth.example'')
       ''0xd8da6bf26964af9d7eed9e03e53415d37aa96045''
     = Inl (Exc InvalidAddress ''web3.py only accepts checksum addresses'')"
    by (simp add: example_upstream_rejects_def)
  have c: "is_Exception (Exc InvalidAddress ''web3.py only accepts checksum addresses'')"
    "\<not> is_ValueError (Exc InvalidAddress ''web3.py only accepts checksum addresses'')"
    by (simp_all add: is_Exception_def is_ValueError_def)
  have "get_wallet_balance_body example_upstream_rejects example_state
          ''0xd8da6bf26964af9d7eed9e03e53415d37aa96045'' ''ETH''
        = (Inl (Exc InvalidAddress ''web3.py only accepts checksum addresses''),
           [EthGetBalance (AsyncWeb3 ''https://eth.example'')
              ''0xd8da6bf26964af9d7eed9e03e53415d37aa96045''])"
    unfolding body_account_chain [OF example_facts(1) example_account_chains(1)]
    using g example_facts(2) by (simp add: evm_branch_def)
  from handler_of_body_other_exception [OF this c]
  show ?thesis using g c by simp
qed

text \<open>
  Claim C9, amended. Every \<open>ValueError\<close> raised in the body of \<open>get_wallet_balance\<close> is
  reported as \<open>Invalid wallet address\<close>, on any branch and in any state: on the
  account-model chains that is the one \<open>from_wei\<close> raises on a raw balance outside
  \<open>0 .. 2 ^ 256 - 1\<close>. An address of these chains that \<open>web3\<close> rejects with
  \<open>InvalidAddress\<close> is not among them: it is reported with the text of the exception.
\<close>

theorem value_error_reported_as_invalid_address:
  "(get_wallet_balance_body u st address chain = (Inl e, tr) \<and> is_ValueError e \<longrightarrow>
      get_wallet_balance u st address chain = (Inr (ErrorResult ''Invalid wallet address''), tr))
   \<and> (state_clients st = Some clients \<and> account_chain chain key name \<and> clients key = Some w3
        \<and> eth_get_balance u w3 address = Inr raw \<and> (raw < 0 \<or> 2 ^ 256 \<le> raw) \<longrightarrow>
      get_wallet_balance u st address chain
        = (Inr (ErrorResult ''Invalid wallet address''), [EthGetBalance w3 address]))
   \<and> (state_clients st = Some clients \<and> account_chain chain key name \<and> clients key = Some w3
        \<and> eth_get_balance u w3 address = Inl e \<and> exc_class e = InvalidAddress \<longrightarrow>
      get_wallet_balance u st address chain
        = (Inr (ErrorResult (exc_str e)), [EthGetBalance w3 address]))"
proof (intro conjI impI)
  assume "get_wallet_balance_body u st address chain = (Inl e, tr) \<and> is_ValueError e"
  then show "get_wallet_balance u st address chain
               = (Inr (ErrorResult ''Invalid wallet address''), tr)"
    by (simp add: handler_of_body_value_error)
next
  assume a: "state_clients st = Some clients \<and> account_chain chain key name
        \<and> clients key = Some w3 \<and> eth_get_balance u w3 address = Inr raw
        \<and> (raw < 0 \<or> 2 ^ 256 \<le> raw)"
  then have s: "state_clients st = Some clients" and k: "account_chain chain key name"
    and c: "clients key = Some w3" and g: "eth_get_balance u w3 address = Inr raw"
    and r: "raw < 0 \<or> 2 ^ 256 \<le> raw" by blast+
  from out_of_range_balance [OF s k c g r]
  show "get_wallet_balance u st address chain
        = (Inr (ErrorResult ''Invalid wallet address''), [EthGetBalance w3 address])"
    by (rule handler_of_body_value_error) (simp add: is_ValueError_def)
next
  assume a: "state_clients st = Some clients \<and> account_chain chain key name
        \<and> clients key = Some w3 \<and> eth_get_balance u w3 address = Inl e
        \<and> exc_class e = InvalidAddress"
  then have s: "state_clients st = Some clients" and k: "account_chain chain key name"
    and c: "clients key = Some w3" and g: "eth_get_balance u w3 address = Inl e"
    and v: "exc_class e = InvalidAddress" by blast+
  have "get_wallet_balance_body u st address chain = (Inl e, [EthGetBalance w3 address])"
    unfolding body_account_chain [OF s k] using c g by (simp add: evm_branch_def)
  then show "get_wallet_balance u st address chain
        = (Inr (ErrorResult (exc_str e)), [EthGetBalance w3 address])"
    by (rule handler_of_body_other_exception) (simp_all add: v is_Exception_def is_ValueError_def)
qed

theorem value_error_reported_as_invalid_address_witness:
  "state_clients example_state = Some example_registry
   \<and> account_chain ''ETH'' ''ethereum'' ''Ethereum''
   \<and> example_registry ''ethereum'' = Some (AsyncWeb3 ''https://eth.example'')
   \<and> eth_get_balance example_upstream_overflow (AsyncWeb3 ''https://eth.example'') ''0xabc''
       = Inr (2 ^ 256)
   \<and> get_wallet_balance_body example_upstream_overflow example_state ''0xabc'' ''ETH''
       = (Inl (Exc ValueError ''value must be between 1 and 2**256 - 1''),
          [EthGetBalance (AsyncWeb3 ''https://eth.example'') ''0xabc''])
   \<and> is_ValueError (Exc ValueError ''value must be between 1 and 2**256 - 1'')
   \<and> get_wallet_balance example_upstream_overflow example_state ''0xabc'' ''ETH''
       = (Inr (ErrorResult ''Invalid wallet address''),
          [EthGetBalance (AsyncWeb3 ''https://eth.example'') ''0xabc''])
   \<and> eth_get_balance example_upstream_rejects (AsyncWeb3 ''https://eth.example'') ''0xABC''
       = Inl (Exc InvalidAddress ''web3.py only accepts checksum addresses'')
   \<and> exc_class (Exc InvalidAddress ''web3.py only accepts checksum addresses'') = InvalidAddress
   \<and> get_wallet_balance example_upstream_rejects example_state ''0xABC'' ''ETH''
       = (Inr (ErrorResult ''web3.py only accepts checksum addresses''),
          [EthGetBalance (AsyncWeb3 ''https://eth.example'') ''0xABC''])"
proof -
  have eb: "eth_get_balance example_upstream_overflow (AsyncWeb3 ''https://eth.example'') ''0xabc''
       = Inr (2 ^ 256)"
    by (simp add: example_upstream_overflow_def)
  have b: "get_wallet_balance_body example_upstream_overflow example_state ''0xabc'' ''ETH''
       = (Inl (Exc ValueError ''value must be between 1 and 2**256 - 1''),
          [EthGetBalance (AsyncWeb3 ''https://eth.example'') ''0xabc''])"
    by (rule out_of_range_balance
        [OF example_facts(1) example_account_chains(1) example_facts(2) eb]) simp
  have v: "is_ValueError (Exc ValueError ''value must be between 1 and 2**256 - 1'')"
    by (simp add: is_ValueError_def)
  have g: "eth_get_balance example_upstream_rejects (AsyncWeb3 ''https://eth.example'') ''0xABC''
       = Inl (Exc InvalidAddress ''web3.py only accepts checksum addresses'')"
    by (simp add: example_upstream_rejects_def)
  note t = value_error_reported_as_invalid_address
  have r1: "get_wallet_balance example_upstream_overflow example_state ''0xabc'' ''ETH''
       = (Inr (ErrorResult ''Invalid wallet address''),
          [EthGetBalance (AsyncWeb3 ''https://eth.example'') ''0xabc''])"
    using b v
      t [of example_upstream_overflow example_state "''0xabc''" "''ETH''"
            "Exc ValueError ''value must be between 1 and 2**256 - 1''"
            "[EthGetBalance (AsyncWeb3 ''https://eth.example'') ''0xabc'']"]
    by blast
  have r2: "get_wallet_balance example_upstream_overflow example_state ''0xabc'' ''ETH''
       = (Inr (ErrorResult ''Invalid wallet address''),
          [EthGetBalance (AsyncWeb3 ''https://eth.example'') ''0xabc''])"
    using eb example_facts(1,2) example_account_chains(1)
      t [of example_upstream_overflow example_state "''0xabc''" "''ETH''" _ _
            example_registry "''ethereum''" "''Ethereum''" "AsyncWeb3 ''https://eth.example''"
            "2 ^ 256"]
    by simp
  have r3: "get_wallet_balance example_upstream_rejects example_state ''0xABC'' ''ETH''
       = (Inr (ErrorResult ''web3.py only accepts checksum addresses''),
          [EthGetBalance (AsyncWeb3 ''https://eth.example'') ''0xABC''])"
    using g example_facts(1,2) example_account_chains(1)
      t [of example_upstream_rejects example_state "''0xABC''" "''ETH''"
            "Exc InvalidAddress ''web3.py only accepts checksum addresses''" _
            example_registry "''ethereum''" "''Ethereum''" "AsyncWeb3 ''https://eth.example''"]
    by simp
  show ?thesis
    using eb b v g r1 r2 r3 example_facts(1,2) example_account_chains(1) by simp
qed

subsection \<open>Reported names\<close>

lemma evm_branch_result:
  "evm_branch u clients key name address = (Inr r, tr) \<Longrightarrow> \<exists>b. r = BalanceResult name b"
  unfolding evm_branch_def by (auto split: option.splits sum.splits)

lemma account_chain_cases:
  "(lower chain = ''eth'' \<or> lower chain = ''ethereum'') \<Longrightarrow> account_chain chain ''ethereum'' ''Ethereum''"
  "(lower chain = ''polygon'' \<or> lower chain = ''matic'') \<Longrightarrow> account_chain chain ''polygon'' ''Polygon''"
  "lower chain = ''arbitrum'' \<Longrightarrow> account_chain chain ''arbitrum'' ''Arbitrum''"
  unfolding account_chain_def by blast+

lemma body_result:
  assumes "get_wallet_balance_body u st address chain = (Inr r, tr)"
  shows "(\<exists>key name b. account_chain chain key name \<and> r = BalanceResult name b)
         \<or> (lower chain = ''solana'' \<and> (\<exists>b. r = BalanceResult ''Solana'' b))
         \<or> r = ErrorResult ''Unsupported chain''"
proof (cases "state_clients st")
  case None
  then show ?thesis using assms by (simp add: body_unset)
next
  case (Some clients)
  consider (acc) key name where "account_chain chain key name"
    | (sol) "lower chain = ''solana''"
    | (other) "lower chain \<notin> {''eth'', ''ethereum'', ''polygon'', ''matic'', ''arbitrum'', ''solana''}"
    using account_chain_cases [of chain] by blast
  then show ?thesis
  proof cases
    case acc
    from assms have "evm_branch u clients key name address = (Inr r, tr)"
      unfolding body_account_chain [OF Some acc] .
    from evm_branch_result [OF this] show ?thesis using acc by blast
  next
    case sol
    from assms [unfolded body_solana [OF Some sol]]
    have "\<exists>b. r = BalanceResult ''Solana'' b"
      by (auto split: sum.splits option.splits)
    then show ?thesis using sol by blast
  next
    case other
    from body_unsupported [OF Some other] show ?thesis using assms by simp
  qed
qed

lemma handler_result:
  assumes "fst (get_wallet_balance u st address chain) = Inr r"
  shows "(\<exists>key name b. account_chain chain key name \<and> r = BalanceResult name b)
         \<or> (lower chain = ''solana'' \<and> (\<exists>b. r = BalanceResult ''Solana'' b))
         \<or> (\<exists>m. r = ErrorResult m)"
proof (cases "get_wallet_balance_body u st address chain")
  case (Pair res tr)
  show ?thesis
  proof (cases res)
    case (Inr r')
    then have "r' = r" using assms Pair by (simp add: get_wallet_balance_def)
    then show ?thesis using body_result [of u st address chain r tr] Pair Inr by auto
  next
    case (Inl e)
    then show ?thesis using assms Pair
      by (auto simp: get_wallet_balance_def split: if_splits)
  qed
qed

text \<open>
  Claim C10. A balance result of \<open>get_wallet_balance\<close> carries the name \<open>Ethereum\<close>,
  \<open>Polygon\<close>, \<open>Arbitrum\<close> or \<open>Solana\<close> of the branch that the lowered chain string
  selects, whatever the caller's spelling; a result of \<open>analyze_wallet_risk\<close> carries
  the caller's address and chain string as given.
\<close>

theorem reported_chain_names:
  "(fst (get_wallet_balance u st address chain) = Inr (BalanceResult c b) \<longrightarrow>
      (lower chain = ''eth'' \<or> lower chain = ''ethereum'') \<and> c = ''Ethereum''
      \<or> (lower chain = ''polygon'' \<or> lower chain = ''matic'') \<and> c = ''Polygon''
      \<or> lower chain = ''arbitrum'' \<and> c = ''Arbitrum''
      \<or> lower chain = ''solana'' \<and> c = ''Solana'')
   \<and> (fst (analyze_wallet_risk u getenv st address chain) = Inr (RiskResult a c' b' r) \<longrightarrow>
      a = address \<and> c' = chain)"
proof (rule conjI; rule impI)
  assume "fst (get_wallet_balance u st address chain) = Inr (BalanceResult c b)"
  from handler_result [OF this]
  show "(lower chain = ''eth'' \<or> lower chain = ''ethereum'') \<and> c = ''Ethereum''
      \<or> (lower chain = ''polygon'' \<or> lower chain = ''matic'') \<and> c = ''Polygon''
      \<or> lower chain = ''arbitrum'' \<and> c = ''Arbitrum''
      \<or> lower chain = ''solana'' \<and> c = ''Solana''"
    unfolding account_chain_def by auto
next
  assume a: "fst (analyze_wallet_risk u getenv st address chain) = Inr (RiskResult a c' b' r)"
  obtain res tr where g: "get_wallet_balance u st address chain = (res, tr)"
    by (cases "get_wallet_balance u st address chain")
  show "a = address \<and> c' = chain"
  proof (cases res)
    case (Inl e)
    then show ?thesis using a g
      by (simp add: analyze_wallet_risk_def analyze_wallet_risk_body_def split: if_splits)
  next
    case (Inr bd)
    with g have "fst (get_wallet_balance u st address chain) = Inr bd" by simp
    from handler_result [OF this] consider
      (bal) n x where "bd = BalanceResult n x" | (err) m where "bd = ErrorResult m"
      by blast
    then show ?thesis
    proof cases
      case err
      then show ?thesis using a g Inr
        by (simp add: analyze_wallet_risk_def analyze_wallet_risk_body_def)
    next
      case bal
      then show ?thesis using a g Inr
        unfolding analyze_wallet_risk_def analyze_wallet_risk_body_def Let_def
        by (auto split: sum.splits option.splits if_splits)
    qed
  qed
qed

lemma example_risk:
  "fst (analyze_wallet_risk example_upstream example_env example_state ''0xabc'' ''ETH'')
       = Inr (RiskResult ''0xabc'' ''ETH'' 1 \<lparr>label = ''negative'', score = float_round (9 / 10)\<rparr>)"
proof -
  have m: "max_by_score example_candidates
             = Inr \<lparr>label = ''negative'', score = float_round (9 / 10)\<rparr>"
    unfolding example_candidates_def using example_scores by (simp add: max_by_score_def)
  show ?thesis
    unfolding analyze_wallet_risk_def analyze_wallet_risk_body_def example_eth_balance
    by (simp add: example_upstream_facts m Let_def)
qed

theorem reported_chain_names_witness:
  "fst (get_wallet_balance example_upstream example_state ''0xabc'' ''ETH'')
     = Inr (BalanceResult ''Ethereum'' 1)
   \<and> lower ''ETH'' = ''eth''
   \<and> fst (analyze_wallet_risk example_upstream example_env example_state ''0xabc'' ''ETH'')
       = Inr (RiskResult ''0xabc'' ''ETH'' 1 \<lparr>label = ''negative'', score = float_round (9 / 10)\<rparr>)"
proof -
  have g: "fst (get_wallet_balance example_upstream example_state ''0xabc'' ''ETH'')
     = Inr (BalanceResult ''Ethereum'' 1)"
    by (simp add: example_eth_balance)
  note t = reported_chain_names
    [of example_upstream example_state "''0xabc''" "''ETH''" "''Ethereum''" 1 example_env
        "''0xabc''" "''ETH''" 1 "\<lparr>label = ''negative'', score = float_round (9 / 10)\<rparr>"]
  have "lower ''ETH'' = ''eth''" using t g by (simp add: lower_examples)
  then show ?thesis using t g example_risk by simp
qed

end
